theory Spec2Isabelle
  imports Complex_Main
begin

section \<open>Python values, strings and exceptions\<close>

text \<open>
  The chat service (\<^verbatim>\<open>src/app/services/chat_service.py\<close>) works on Python
  dictionaries, lists and strings. A string is a \<open>string\<close> whose characters are
  code points below 256; a dictionary is an association list in insertion order (a
  Python dictionary never holds a key twice, so theorems that depend on it assume
  \<open>distinct (map fst d)\<close>); an exception is a value of \<open>exn\<close> on the left
  of a sum.
\<close>

datatype exn = KeyError | TypeError | AttributeError | ValueError | HTTPException | ProviderError

datatype pyval =
    PStr string
  | PList "pyval list"
  | PDict "(string \<times> pyval) list"
  | PNone
  | PBool bool
  | PInt int

type_synonym pydict = "(string \<times> pyval) list"

type_synonym message = "(string \<times> pyval) list"

text \<open>\<^verbatim>\<open>d.get(k)\<close> is \<open>map_of d k\<close>; \<^verbatim>\<open>d[k]\<close> raises KeyError on a missing key.\<close>

definition subscript :: "pydict \<Rightarrow> string \<Rightarrow> exn + pyval" where
  "subscript d k = (case map_of d k of None \<Rightarrow> Inl KeyError | Some v \<Rightarrow> Inr v)"

text \<open>Python truthiness (\<^verbatim>\<open>if not content\<close>, \<^verbatim>\<open>if chat.prompt\<close>).\<close>

fun truthy :: "pyval \<Rightarrow> bool" where
  "truthy (PStr s) = (s \<noteq> [])"
| "truthy (PList xs) = (xs \<noteq> [])"
| "truthy (PDict d) = (d \<noteq> [])"
| "truthy PNone = False"
| "truthy (PBool b) = b"
| "truthy (PInt i) = (i \<noteq> 0)"

text \<open>
  \<^verbatim>\<open>str.lower()\<close> on code points below 256: the ASCII capitals and the Latin-1
  capitals (192 to 222 without the multiplication sign 215) get bit 5 set.
\<close>

definition lower_char :: "char \<Rightarrow> char" where
  "lower_char c =
     (let n = (of_char c :: nat)
      in if (65 \<le> n \<and> n \<le> 90) \<or> (192 \<le> n \<and> n \<le> 222 \<and> n \<noteq> 215)
         then Char (digit0 c) (digit1 c) (digit2 c) (digit3 c) (digit4 c) True (digit6 c) (digit7 c)
         else c)"

definition lower :: "string \<Rightarrow> string" where
  "lower s = map lower_char s"

text \<open>
  \<^verbatim>\<open>str.strip()\<close>: the white space below 256 is 9 to 13, 28 to 32, 133 and 160.
\<close>

definition is_space :: "char \<Rightarrow> bool" where
  "is_space c =
     (let n = (of_char c :: nat)
      in (9 \<le> n \<and> n \<le> 13) \<or> (28 \<le> n \<and> n \<le> 32) \<or> n = 133 \<or> n = 160)"

definition strip :: "string \<Rightarrow> string" where
  "strip s = rev (dropWhile is_space (rev (dropWhile is_space s)))"

definition startswith :: "string \<Rightarrow> string \<Rightarrow> bool" where
  "startswith s p = (take (length p) s = p)"

definition endswith :: "string \<Rightarrow> string \<Rightarrow> bool" where
  "endswith s p = (length p \<le> length s \<and> drop (length s - length p) s = p)"

section \<open>Configuration and chat history\<close>

text \<open>
  \<^verbatim>\<open>AiConfig\<close> and \<^verbatim>\<open>IRouterChatLog\<close> are declared in
  \<^verbatim>\<open>app/models/chat.py\<close>; the service reads the fields below. The billing
  rates are Python floats; they are idealised as rationals, so the arithmetic of
  \<open>get_points\<close> is exact.
\<close>

record AiConfig =
  provider :: string
  model :: string
  inputCost :: rat
  outputCost :: rat
  multiplier :: rat
  imageSupport :: bool

text \<open>A stored turn: \<open>None\<close> is Python's \<^verbatim>\<open>None\<close>; both it and the empty string are falsy.\<close>

record ChatTurn =
  prompt :: "string option"
  response :: "string option"

definition field_val :: "string option \<Rightarrow> pyval" where
  "field_val f = (case f of None \<Rightarrow> PNone | Some s \<Rightarrow> PStr s)"

text \<open>The settings the service reads (\<^verbatim>\<open>app/config/settings.py\<close>).\<close>

record settings =
  OPENAI_API_KEY :: string
  ANTHROPIC_API_KEY :: string
  DEEPSEEK_API_KEY :: string
  GOOGLE_API_KEY :: string
  XAI_API_KEY :: string
  OLLAMA_BASE_URL :: string
  MISTRAL_API_KEY :: string
  CEREBRAS_API_KEY :: string
  OPENROUTER_API_KEY :: string
  AWS_CDN_URL :: string

section \<open>Message assembly: \<open>get_chat_messages\<close>\<close>

definition mk_message :: "string \<Rightarrow> pyval \<Rightarrow> message" where
  "mk_message r c = [(''role'', PStr r), (''content'', c)]"

text \<open>
  The body of both history loops (lines 88 to 94 and 97 to 101): append a user message
  when the prompt is truthy, then an assistant message when the response is.
\<close>

definition append_turn :: "ChatTurn \<Rightarrow> message list \<Rightarrow> message list" where
  "append_turn chat messages =
     (let messages = (if truthy (field_val (prompt chat))
                      then messages @ [mk_message ''user'' (field_val (prompt chat))]
                      else messages);
          messages = (if truthy (field_val (response chat))
                      then messages @ [mk_message ''assistant'' (field_val (response chat))]
                      else messages)
      in messages)"

text \<open>
  \<open>get_chat_messages db_system_prompt chat_history provider\<close>, lines 50 to 106;
  \<open>db_system_prompt\<close> is what \<^verbatim>\<open>db.get_system_prompt()\<close> answers. The result is the
  pair the source returns.
\<close>

definition get_chat_messages :: "string \<Rightarrow> ChatTurn list \<Rightarrow> string \<Rightarrow> message list \<times> string" where
  "get_chat_messages db_system_prompt chat_history prov =
     (let system_prompt = (if prov \<noteq> ''edith'' then [] else db_system_prompt);
          messages = [];
          messages = (if lower prov \<noteq> ''anthropic''
                      then messages @ [mk_message ''system'' (PStr system_prompt)]
                      else messages)
      in if lower prov = ''deepseek'' then
           (let valid_history =
                  filter (\<lambda>chat. truthy (field_val (prompt chat)) \<or> truthy (field_val (response chat)))
                    chat_history
            in case valid_history of
                 [] \<Rightarrow> (messages, system_prompt)
               | first_chat # remaining \<Rightarrow>
                   if \<not> truthy (field_val (prompt first_chat)) then (messages, system_prompt)
                   else
                     (let messages = messages @ [mk_message ''user'' (field_val (prompt first_chat))];
                          messages = (if truthy (field_val (response first_chat))
                                      then messages @ [mk_message ''assistant'' (field_val (response first_chat))]
                                      else messages)
                      in (fold append_turn remaining messages, system_prompt)))
         else (fold append_turn chat_history messages, system_prompt))"

section \<open>Billing points: \<open>get_points\<close>\<close>

text \<open>Line 112; the token counts are Python integers.\<close>

definition get_points :: "int \<Rightarrow> int \<Rightarrow> AiConfig \<Rightarrow> rat" where
  "get_points inputToken outputToken ai_config =
     (of_int inputToken * inputCost ai_config + of_int outputToken * outputCost ai_config)
       * multiplier ai_config / 0.001"

section \<open>Provider selection: \<open>_get_llm\<close>\<close>

datatype client_class =
    ChatAnthropic | ChatDeepSeek | ChatGoogleGenerativeAI | ChatXAI | ChatOllama
  | ChatMistralAI | ChatCerebras | ChatOpenAI

text \<open>
  The keyword arguments each constructor receives; \<open>None\<close> is an argument the call
  leaves out. Every call passes the same callback handler, which is not modelled.
\<close>

record llm_client =
  client :: client_class
  temperature :: "rat option"
  streaming :: bool
  model_id :: string
  max_tokens :: nat
  api_key :: "string option"
  base_url :: "string option"
  stream_usage :: bool

definition get_llm :: "settings \<Rightarrow> AiConfig \<Rightarrow> bool \<Rightarrow> llm_client" where
  "get_llm st ai_config isStream =
     (if lower (provider ai_config) = ''anthropic'' then
        \<lparr>client = ChatAnthropic, temperature = Some 0.7, streaming = isStream,
         model_id = model ai_config, max_tokens = 2000,
         api_key = Some (ANTHROPIC_API_KEY st), base_url = None, stream_usage = isStream\<rparr>
      else if lower (provider ai_config) = ''deepseek'' then
        \<lparr>client = ChatDeepSeek, temperature = Some 0.7, streaming = isStream,
         model_id = model ai_config, max_tokens = 2000,
         api_key = Some (DEEPSEEK_API_KEY st), base_url = None, stream_usage = isStream\<rparr>
      else if lower (provider ai_config) = ''google'' then
        \<lparr>client = ChatGoogleGenerativeAI, temperature = Some 0.7, streaming = isStream,
         model_id = model ai_config, max_tokens = 2000,
         api_key = Some (GOOGLE_API_KEY st), base_url = None, stream_usage = isStream\<rparr>
      else if lower (provider ai_config) = ''xai'' then
        \<lparr>client = ChatXAI, temperature = Some 0.7, streaming = isStream,
         model_id = model ai_config, max_tokens = 2000,
         api_key = Some (XAI_API_KEY st), base_url = None, stream_usage = isStream\<rparr>
      else if lower (provider ai_config) = ''ollama'' then
        \<lparr>client = ChatOllama, temperature = Some 0.7, streaming = isStream,
         model_id = model ai_config, max_tokens = 2000,
         api_key = None, base_url = Some (OLLAMA_BASE_URL st), stream_usage = isStream\<rparr>
      else if lower (provider ai_config) = ''mistralai'' then
        \<lparr>client = ChatMistralAI, temperature = Some 0.7, streaming = isStream,
         model_id = model ai_config, max_tokens = 2000,
         api_key = Some (MISTRAL_API_KEY st), base_url = None, stream_usage = isStream\<rparr>
      else if lower (provider ai_config) = ''cerebras'' \<or> lower (provider ai_config) = ''edith'' then
        \<lparr>client = ChatCerebras, temperature = Some 0.7, streaming = isStream,
         model_id = (if lower (provider ai_config) = ''edith'' then ''llama-3.3-70b''
                     else model ai_config),
         max_tokens = 2000,
         api_key = Some (CEREBRAS_API_KEY st), base_url = None, stream_usage = isStream\<rparr>
      else if lower (provider ai_config) = ''openrouter'' then
        \<lparr>client = ChatOpenAI, temperature = None, streaming = isStream,
         model_id = model ai_config, max_tokens = 2000,
         api_key = Some (OPENROUTER_API_KEY st),
         base_url = Some ''https://openrouter.ai/api/v1'', stream_usage = isStream\<rparr>
      else
        \<lparr>client = ChatOpenAI, temperature = None, streaming = isStream,
         model_id = model ai_config, max_tokens = 2000,
         api_key = Some (OPENAI_API_KEY st), base_url = None, stream_usage = isStream\<rparr>)"

text \<open>The vendors \<open>_get_llm\<close> names in its \<^verbatim>\<open>if\<close>/\<^verbatim>\<open>elif\<close> chain.\<close>

definition enumerated_vendors :: "string list" where
  "enumerated_vendors =
     [''anthropic'', ''deepseek'', ''google'', ''xai'', ''ollama'', ''mistralai'',
      ''cerebras'', ''edith'', ''openrouter'']"

section \<open>Token estimation and metering\<close>

record token_usage =
  prompt_tokens :: int
  completion_tokens :: int
  total_tokens :: int

text \<open>
  \<^verbatim>\<open>estimate_image_tokens\<close> (lines 915 to 932) and \<^verbatim>\<open>estimate_audio_tokens\<close>
  (lines 1134 to 1151). \<^verbatim>\<open>len\<close> and \<^verbatim>\<open>//\<close> on a string and on 4 cannot raise,
  so the \<^verbatim>\<open>except\<close> branch of each is never taken.
\<close>

definition estimate_image_tokens :: "string \<Rightarrow> token_usage" where
  "estimate_image_tokens prompt_text =
     (let char_count = int (length prompt_text);
          estimated_tokens = char_count div 4
      in \<lparr>prompt_tokens = estimated_tokens, completion_tokens = 0,
          total_tokens = estimated_tokens\<rparr>)"

definition estimate_audio_tokens :: "string \<Rightarrow> token_usage" where
  "estimate_audio_tokens txt_in =
     (let char_count = int (length txt_in);
          estimated_tokens = char_count div 4
      in \<lparr>prompt_tokens = estimated_tokens, completion_tokens = 0,
          total_tokens = estimated_tokens\<rparr>)"

text \<open>
  The tokenizer library: \<^verbatim>\<open>tiktoken.encoding_for_model\<close> raises KeyError on an
  unknown model (\<open>None\<close> here) and \<^verbatim>\<open>tiktoken.get_encoding\<close> answers the named
  encoding. An encoding maps a string to its tokens, or raises (\<^verbatim>\<open>encode\<close> refuses
  text that holds a special token).
\<close>

type_synonym encoding = "string \<Rightarrow> exn + nat list"

record tiktoken =
  tiktoken_encoding_for_model :: "string \<Rightarrow> encoding option"
  tiktoken_get_encoding :: "string \<Rightarrow> encoding"

text \<open>\<^verbatim>\<open>_get_encoding\<close>, lines 1472 to 1478.\<close>

definition get_encoding :: "tiktoken \<Rightarrow> string \<Rightarrow> encoding" where
  "get_encoding tk mdl =
     (case tiktoken_encoding_for_model tk mdl of
        Some enc \<Rightarrow> enc
      | None \<Rightarrow> tiktoken_get_encoding tk ''cl100k_base'')"

text \<open>
  \<^verbatim>\<open>len(encoding.encode(v))\<close>: \<^verbatim>\<open>encode\<close> raises TypeError on a value that is
  not a string.
\<close>

definition encode_len :: "encoding \<Rightarrow> pyval \<Rightarrow> exn + int" where
  "encode_len enc v =
     (case v of
        PStr s \<Rightarrow> (case enc s of Inl e \<Rightarrow> Inl e | Inr toks \<Rightarrow> Inr (int (length toks)))
      | _ \<Rightarrow> Inl TypeError)"

text \<open>\<^verbatim>\<open>num_tokens += len(encoding.encode(v))\<close>.\<close>

definition add_encoded :: "encoding \<Rightarrow> pyval \<Rightarrow> int \<Rightarrow> exn + int" where
  "add_encoded enc v num_tokens =
     (case encode_len enc v of Inl e \<Rightarrow> Inl e | Inr k \<Rightarrow> Inr (num_tokens + k))"

text \<open>
  One pass of the loop over the parts of a list content (lines 1521 to 1537), on the
  running \<open>num_tokens\<close>. \<^verbatim>\<open>content_item.get("image_url", {}).get("detail", "auto")\<close>
  raises AttributeError when the \<open>image_url\<close> field is not a dictionary.
\<close>

definition count_content_item :: "encoding \<Rightarrow> pyval \<Rightarrow> int \<Rightarrow> exn + int" where
  "count_content_item enc content_item num_tokens =
     (case content_item of
        PDict d \<Rightarrow>
          if map_of d ''type'' = Some (PStr ''text'') then
            add_encoded enc (case map_of d ''text'' of None \<Rightarrow> PStr [] | Some t \<Rightarrow> t) num_tokens
          else if map_of d ''type'' = Some (PStr ''image_url'') then
            (case (case map_of d ''image_url'' of
                     None \<Rightarrow> Inr []
                   | Some (PDict iu) \<Rightarrow> Inr iu
                   | Some _ \<Rightarrow> Inl AttributeError) of
               Inl e \<Rightarrow> Inl e
             | Inr iu \<Rightarrow>
                 (let detail = (case map_of iu ''detail'' of None \<Rightarrow> PStr ''auto'' | Some v \<Rightarrow> v)
                  in if detail = PStr ''low'' then Inr (num_tokens + 85)
                     else Inr (num_tokens + 170)))
          else if map_of d ''type'' = Some (PStr ''image'') then Inr (num_tokens + 170)
          else Inr num_tokens
      | _ \<Rightarrow> Inr num_tokens)"

fun count_content_items :: "encoding \<Rightarrow> pyval list \<Rightarrow> int \<Rightarrow> exn + int" where
  "count_content_items enc [] num_tokens = Inr num_tokens"
| "count_content_items enc (content_item # rest) num_tokens =
     (case count_content_item enc content_item num_tokens of
        Inl e \<Rightarrow> Inl e
      | Inr n \<Rightarrow> count_content_items enc rest n)"

text \<open>One pass of the loop over \<^verbatim>\<open>message.items()\<close>, lines 1514 to 1548.\<close>

definition count_field :: "encoding \<Rightarrow> string \<times> pyval \<Rightarrow> int \<Rightarrow> exn + int" where
  "count_field enc kv num_tokens =
     (case kv of (key, v) \<Rightarrow>
        (case (if key = ''content'' then
                 (case v of
                    PStr s \<Rightarrow> add_encoded enc v num_tokens
                  | PList items \<Rightarrow> count_content_items enc items num_tokens
                  | PDict d \<Rightarrow>
                      (case map_of d ''text'' of
                         Some t \<Rightarrow> add_encoded enc t num_tokens
                       | None \<Rightarrow> Inr num_tokens)
                  | _ \<Rightarrow> Inr num_tokens)
               else
                 (case v of
                    PStr s \<Rightarrow> add_encoded enc v num_tokens
                  | _ \<Rightarrow> Inr num_tokens)) of
           Inl e \<Rightarrow> Inl e
         | Inr n \<Rightarrow> Inr (if key = ''name'' then n + (- 1) else n)))"

fun count_fields :: "encoding \<Rightarrow> (string \<times> pyval) list \<Rightarrow> int \<Rightarrow> exn + int" where
  "count_fields enc [] num_tokens = Inr num_tokens"
| "count_fields enc (kv # rest) num_tokens =
     (case count_field enc kv num_tokens of
        Inl e \<Rightarrow> Inl e
      | Inr n \<Rightarrow> count_fields enc rest n)"

fun count_messages :: "encoding \<Rightarrow> message list \<Rightarrow> int \<Rightarrow> exn + int" where
  "count_messages enc [] num_tokens = Inr num_tokens"
| "count_messages enc (msg # rest) num_tokens =
     (case count_fields enc msg (num_tokens + 4) of
        Inl e \<Rightarrow> Inl e
      | Inr n \<Rightarrow> count_messages enc rest n)"

text \<open>\<^verbatim>\<open>estimate_tokens\<close>, lines 1503 to 1551.\<close>

definition estimate_tokens :: "tiktoken \<Rightarrow> message list \<Rightarrow> string \<Rightarrow> exn + int" where
  "estimate_tokens tk messages mdl =
     (let enc = get_encoding tk mdl;
          num_tokens = 0
      in case count_messages enc messages num_tokens of
           Inl e \<Rightarrow> Inl e
         | Inr n \<Rightarrow> Inr (n + 2))"

text \<open>
  \<^verbatim>\<open>int(prompt_tokens * 1.5)\<close>: the product of an integer and the float 1.5,
  truncated towards zero (exact while the product is below \<open>2^53\<close>).
\<close>

definition int_times_1_5 :: "int \<Rightarrow> int" where
  "int_times_1_5 n = (if 0 \<le> n then (3 * n) div 2 else - ((3 * (- n)) div 2))"

text \<open>\<^verbatim>\<open>estimate_response_tokens\<close>, lines 1553 to 1561.\<close>

definition estimate_response_tokens :: "int \<Rightarrow> int" where
  "estimate_response_tokens n = (let max_tokens = 2000 in min (int_times_1_5 n) max_tokens)"

text \<open>
  \<^verbatim>\<open>estimate_total_tokens\<close>, lines 1563 to 1586: the \<^verbatim>\<open>except\<close> branch raises the
  exception again, so the function returns a dictionary only on the normal path.
\<close>

definition estimate_total_tokens ::
    "tiktoken \<Rightarrow> message list \<Rightarrow> string \<Rightarrow> string \<Rightarrow> string \<Rightarrow> exn + token_usage" where
  "estimate_total_tokens tk messages system_template mdl ctx =
     (let enc = get_encoding tk mdl
      in case estimate_tokens tk messages mdl of
           Inl e \<Rightarrow> Inl e
         | Inr a \<Rightarrow>
             (case encode_len enc (PStr system_template) of
                Inl e \<Rightarrow> Inl e
              | Inr b \<Rightarrow>
                  (case encode_len enc (PStr ctx) of
                     Inl e \<Rightarrow> Inl e
                   | Inr c \<Rightarrow>
                       (let p = a + b + c;
                            response_tokens = estimate_response_tokens p;
                            t = p + response_tokens
                        in Inr \<lparr>prompt_tokens = p, completion_tokens = response_tokens,
                                total_tokens = t\<rparr>))))"

text \<open>
  \<^verbatim>\<open>track_actual_token_usage\<close>, lines 1480 to 1501: every exception is caught and
  answered with the all-zero dictionary.
\<close>

definition zero_usage :: token_usage where
  "zero_usage = \<lparr>prompt_tokens = 0, completion_tokens = 0, total_tokens = 0\<rparr>"

definition track_actual_token_usage ::
    "tiktoken \<Rightarrow> message list \<Rightarrow> string \<Rightarrow> string \<Rightarrow> token_usage" where
  "track_actual_token_usage tk messages response_text mdl =
     (let enc = get_encoding tk mdl
      in case estimate_tokens tk messages mdl of
           Inl e \<Rightarrow> zero_usage
         | Inr p \<Rightarrow>
             (case encode_len enc (PStr response_text) of
                Inl e \<Rightarrow> zero_usage
              | Inr c \<Rightarrow>
                  \<lparr>prompt_tokens = p, completion_tokens = c, total_tokens = p + c\<rparr>))"

section \<open>The content-presence predicate: \<open>_has_content\<close>\<close>

text \<open>
  The generator inside \<^verbatim>\<open>any(...)\<close>, lines 1819 to 1823: \<^verbatim>\<open>any\<close> stops at the
  first true part, and \<^verbatim>\<open>item.get("text", "").strip()\<close> raises AttributeError when
  the \<open>text\<close> field is not a string.
\<close>

fun any_item_has_content :: "pyval list \<Rightarrow> exn + bool" where
  "any_item_has_content [] = Inr False"
| "any_item_has_content (item # rest) =
     (case item of
        PDict d \<Rightarrow>
          (case (case map_of d ''text'' of
                   None \<Rightarrow> Inr []
                 | Some (PStr t) \<Rightarrow> Inr (strip t)
                 | Some _ \<Rightarrow> Inl AttributeError) of
             Inl e \<Rightarrow> Inl e
           | Inr stripped \<Rightarrow>
               if stripped \<noteq> [] then Inr True
               else if map_of d ''type'' = Some (PStr ''image_url'')
                       \<or> map_of d ''type'' = Some (PStr ''image'') then Inr True
               else any_item_has_content rest)
      | _ \<Rightarrow> any_item_has_content rest)"

text \<open>\<^verbatim>\<open>_has_content\<close>, lines 1806 to 1827; a message of this model is always a dictionary.\<close>

definition has_content :: "message \<Rightarrow> exn + bool" where
  "has_content msg =
     (case map_of msg ''content'' of
        None \<Rightarrow> Inr False
      | Some content \<Rightarrow>
          if \<not> truthy content then Inr False
          else
            (case content of
               PStr s \<Rightarrow> Inr (strip s \<noteq> [])
             | PList items \<Rightarrow> any_item_has_content items
             | PDict d \<Rightarrow>
                 (case map_of d ''text'' of
                    None \<Rightarrow> Inr False
                  | Some (PStr t) \<Rightarrow> Inr (strip t \<noteq> [])
                  | Some _ \<Rightarrow> Inl AttributeError)
             | _ \<Rightarrow> Inr False))"

section \<open>Multimodal messages\<close>

text \<open>
  \<^verbatim>\<open>format_image_content\<close>, lines 1594 to 1693. \<open>fetch\<close> stands for downloading an
  image and encoding it in base64 (\<^verbatim>\<open>requests.get\<close>, \<^verbatim>\<open>raise_for_status\<close>,
  \<^verbatim>\<open>base64.b64encode\<close>): \<open>None\<close> when any of them raises, in which case the source
  logs the error and goes on to the next image.
\<close>

definition media_type_of :: "string \<Rightarrow> string" where
  "media_type_of image_url =
     (if endswith (lower image_url) ''.png'' then ''image/png''
      else if endswith (lower image_url) ''.jpg'' \<or> endswith (lower image_url) ''.jpeg''
        then ''image/jpeg''
      else if endswith (lower image_url) ''.gif'' then ''image/gif''
      else if endswith (lower image_url) ''.webp'' then ''image/webp''
      else ''image/jpeg'')"

definition resolve_url :: "settings \<Rightarrow> string \<Rightarrow> string" where
  "resolve_url st image_url =
     (if startswith image_url ''http'' then image_url else AWS_CDN_URL st @ ''/'' @ image_url)"

definition format_image ::
    "settings \<Rightarrow> (string \<Rightarrow> string option) \<Rightarrow> string \<Rightarrow> string \<Rightarrow> pyval list \<Rightarrow> pyval list" where
  "format_image st fetch prov image_url formatted_content =
     (if lower prov = ''openai'' then
        formatted_content @
          [PDict [(''type'', PStr ''image_url''),
                  (''image_url'', PDict [(''url'', PStr (resolve_url st image_url)),
                                         (''detail'', PStr ''high'')])]]
      else if lower prov = ''anthropic'' then
        (case fetch (resolve_url st image_url) of
           None \<Rightarrow> formatted_content
         | Some image_base64 \<Rightarrow>
             formatted_content @
               [PDict [(''type'', PStr ''image''),
                       (''source'', PDict [(''type'', PStr ''base64''),
                                           (''media_type'', PStr (media_type_of image_url)),
                                           (''data'', PStr image_base64)])]])
      else if lower prov = ''google'' then
        (case fetch (resolve_url st image_url) of
           None \<Rightarrow> formatted_content
         | Some image_base64 \<Rightarrow>
             formatted_content @
               [PDict [(''type'', PStr ''image_url''),
                       (''image_url'',
                        PDict [(''url'', PStr (''data:'' @ media_type_of image_url
                                                 @ '';base64,'' @ image_base64))])]])
      else
        formatted_content @
          [PDict [(''type'', PStr ''image_url''),
                  (''image_url'', PDict [(''url'', PStr (resolve_url st image_url))])]])"

definition format_image_content ::
    "settings \<Rightarrow> (string \<Rightarrow> string option) \<Rightarrow> string list \<Rightarrow> string \<Rightarrow> pyval list" where
  "format_image_content st fetch image_files prov = fold (format_image st fetch prov) image_files []"

definition default_image_prompt :: string where
  "default_image_prompt =
     ''Please analyze and describe what you see in this image. Provide detailed information about the content, objects, text, symbols, or any other relevant details you can observe.''"

text \<open>\<^verbatim>\<open>create_multimodal_message\<close>, lines 1695 to 1741.\<close>

definition create_multimodal_message ::
    "settings \<Rightarrow> (string \<Rightarrow> string option) \<Rightarrow> string \<Rightarrow> string list \<Rightarrow> string \<Rightarrow> message" where
  "create_multimodal_message st fetch text_content image_files prov =
     (if image_files = [] then mk_message ''user'' (PStr text_content)
      else
        (let text_content =
               (if text_content = [] \<or> strip text_content = [] \<or> length (strip text_content) < 5
                then default_image_prompt else text_content)
         in if lower prov = ''openai'' \<or> lower prov = ''anthropic'' \<or> lower prov = ''google''
               \<or> lower prov = ''openrouter''
            then mk_message ''user''
                   (PList ([PDict [(''type'', PStr ''text''), (''text'', PStr text_content)]]
                           @ format_image_content st fetch image_files prov))
            else mk_message ''user'' (PStr text_content)))"

section \<open>The message list of the direct (multimodal) invocation\<close>

text \<open>\<^verbatim>\<open>d[k] = v\<close>: an existing key keeps its place, a new one goes last.\<close>

fun dict_set :: "pydict \<Rightarrow> string \<Rightarrow> pyval \<Rightarrow> pydict" where
  "dict_set [] k v = [(k, v)]"
| "dict_set (kv # d) k v = (if fst kv = k then (k, v) # d else kv # dict_set d k v)"

text \<open>
  The loop over \<^verbatim>\<open>messages[:-1]\<close> of lines 347 to 352 (and 735 to 740), on the
  list built so far.
\<close>

fun copy_history :: "message list \<Rightarrow> message list \<Rightarrow> exn + message list" where
  "copy_history [] direct_messages = Inr direct_messages"
| "copy_history (msg # rest) direct_messages =
     (case has_content msg of
        Inl e \<Rightarrow> Inl e
      | Inr present \<Rightarrow>
          if present then
            (case subscript msg ''role'' of
               Inl e \<Rightarrow> Inl e
             | Inr r \<Rightarrow>
                 (case subscript msg ''content'' of
                    Inl e \<Rightarrow> Inl e
                  | Inr c \<Rightarrow>
                      copy_history rest (direct_messages @ [[(''role'', r), (''content'', c)]])))
          else copy_history rest direct_messages)"

text \<open>
  Lines 358 to 367 (and 746 to 755): the first message whose role is \<open>user\<close> gets the
  system content, in front of a string content or as the first text part of a list
  content; the loop stops there.
\<close>

fun prepend_system :: "string \<Rightarrow> message list \<Rightarrow> exn + message list" where
  "prepend_system system_content [] = Inr []"
| "prepend_system system_content (msg # rest) =
     (case subscript msg ''role'' of
        Inl e \<Rightarrow> Inl e
      | Inr r \<Rightarrow>
          if r = PStr ''user'' then
            (case subscript msg ''content'' of
               Inl e \<Rightarrow> Inl e
             | Inr c \<Rightarrow>
                 (case c of
                    PStr s \<Rightarrow>
                      Inr (dict_set msg ''content''
                             (PStr (system_content @ ''\<newline>\<newline>'' @ s)) # rest)
                  | PList items \<Rightarrow>
                      Inr (dict_set msg ''content''
                             (PList (PDict [(''type'', PStr ''text''), (''text'', PStr system_content)]
                                     # items)) # rest)
                  | _ \<Rightarrow> Inr (msg # rest)))
          else
            (case prepend_system system_content rest of
               Inl e \<Rightarrow> Inl e
             | Inr rest' \<Rightarrow> Inr (msg # rest')))"

text \<open>Lines 340 to 367 (and 728 to 755).\<close>

definition build_direct_messages ::
    "string \<Rightarrow> string \<Rightarrow> message list \<Rightarrow> message \<Rightarrow> exn + message list" where
  "build_direct_messages prov system_content messages current_question_msg =
     (let direct_messages = [];
          direct_messages =
            (if lower prov \<noteq> ''anthropic''
             then direct_messages @ [mk_message ''system'' (PStr system_content)]
             else direct_messages)
      in case copy_history (butlast messages) direct_messages of
           Inl e \<Rightarrow> Inl e
         | Inr direct_messages \<Rightarrow>
             (let direct_messages = direct_messages @ [current_question_msg]
              in if lower prov = ''anthropic'' \<and> direct_messages \<noteq> []
                 then prepend_system system_content direct_messages
                 else Inr direct_messages))"

section \<open>Prompt templates\<close>

text \<open>
  The entries of a \<^verbatim>\<open>ChatPromptTemplate\<close>: a system, a human or an AI message
  template with its template text. \<^verbatim>\<open>from_template\<close> wants a string.
\<close>

datatype prompt_template = SystemTemplate string | HumanTemplate string | AITemplate string

definition template_text :: "pyval \<Rightarrow> exn + string" where
  "template_text v = (case v of PStr s \<Rightarrow> Inr s | _ \<Rightarrow> Inl TypeError)"

fun join :: "string \<Rightarrow> string list \<Rightarrow> string" where
  "join sep [] = []"
| "join sep [x] = x"
| "join sep (x # y # rest) = x @ sep @ join sep (y # rest)"

text \<open>
  \<^verbatim>\<open>str(v)\<close>: the string itself for a string; how Python prints any other value is
  left to \<open>repr\<close>.
\<close>

definition py_str :: "(pyval \<Rightarrow> string) \<Rightarrow> pyval \<Rightarrow> string" where
  "py_str repr v = (case v of PStr s \<Rightarrow> s | _ \<Rightarrow> repr v)"

text \<open>\<^verbatim>\<open>_extract_text_content\<close>, lines 1777 to 1804.\<close>

definition extract_text_content :: "(pyval \<Rightarrow> string) \<Rightarrow> pyval \<Rightarrow> string" where
  "extract_text_content repr content =
     (case content of
        PStr s \<Rightarrow> s
      | PList items \<Rightarrow>
          join '' ''
            (concat (map (\<lambda>item.
               case item of
                 PDict d \<Rightarrow>
                   if map_of d ''type'' = Some (PStr ''text'')
                   then [py_str repr (case map_of d ''text'' of None \<Rightarrow> PStr [] | Some t \<Rightarrow> t)]
                   else []
               | _ \<Rightarrow> []) items))
      | PDict d \<Rightarrow>
          (case map_of d ''text'' of
             Some t \<Rightarrow> py_str repr t
           | None \<Rightarrow>
               (case map_of d ''content'' of
                  Some c \<Rightarrow> py_str repr c
                | None \<Rightarrow> py_str repr content))
      | PNone \<Rightarrow> []
      | _ \<Rightarrow> py_str repr content)"

text \<open>
  The history entries of the template with files (lines 405 to 411 and 774 to 780):
  a human template for a user message, an AI template for any other role.
\<close>

fun history_templates_extracted ::
    "(pyval \<Rightarrow> string) \<Rightarrow> message list \<Rightarrow> exn + prompt_template list" where
  "history_templates_extracted repr [] = Inr []"
| "history_templates_extracted repr (msg # rest) =
     (case has_content msg of
        Inl e \<Rightarrow> Inl e
      | Inr present \<Rightarrow>
          if present then
            (case subscript msg ''role'' of
               Inl e \<Rightarrow> Inl e
             | Inr r \<Rightarrow>
                 (let c = (case map_of msg ''content'' of None \<Rightarrow> PStr [] | Some v \<Rightarrow> v);
                      t = (if r = PStr ''user'' then HumanTemplate (extract_text_content repr c)
                           else AITemplate (py_str repr c))
                  in case history_templates_extracted repr rest of
                       Inl e \<Rightarrow> Inl e
                     | Inr ts \<Rightarrow> Inr (t # ts)))
          else history_templates_extracted repr rest)"

text \<open>Lines 403 to 415 and 772 to 784.\<close>

definition files_prompt ::
    "(pyval \<Rightarrow> string) \<Rightarrow> string \<Rightarrow> message list \<Rightarrow> message \<Rightarrow> exn + prompt_template list" where
  "files_prompt repr system_template messages current_question_msg =
     (case history_templates_extracted repr (butlast messages) of
        Inl e \<Rightarrow> Inl e
      | Inr ts \<Rightarrow>
          Inr ([SystemTemplate system_template] @ ts @
               [HumanTemplate
                  (extract_text_content repr
                     (case map_of current_question_msg ''content'' of
                        None \<Rightarrow> PStr [] | Some v \<Rightarrow> v))]))"

text \<open>The history entries of the template without files, lines 840 to 842.\<close>

fun history_templates ::
    "(pyval \<Rightarrow> string) \<Rightarrow> message list \<Rightarrow> exn + prompt_template list" where
  "history_templates repr [] = Inr []"
| "history_templates repr (msg # rest) =
     (case has_content msg of
        Inl e \<Rightarrow> Inl e
      | Inr present \<Rightarrow>
          if present then
            (case subscript msg ''role'' of
               Inl e \<Rightarrow> Inl e
             | Inr r \<Rightarrow>
                 (let c = (case map_of msg ''content'' of None \<Rightarrow> PStr [] | Some v \<Rightarrow> v);
                      t = (if r = PStr ''user'' then HumanTemplate (py_str repr c)
                           else AITemplate (py_str repr c))
                  in case history_templates repr rest of
                       Inl e \<Rightarrow> Inl e
                     | Inr ts \<Rightarrow> Inr (t # ts)))
          else history_templates repr rest)"

text \<open>Lines 838 to 844.\<close>

definition text_prompt ::
    "(pyval \<Rightarrow> string) \<Rightarrow> string \<Rightarrow> message list \<Rightarrow> string \<Rightarrow> exn + prompt_template list" where
  "text_prompt repr system_template messages query_text =
     (case history_templates repr (butlast messages) of
        Inl e \<Rightarrow> Inl e
      | Inr ts \<Rightarrow> Inr ([SystemTemplate system_template] @ ts @ [HumanTemplate query_text]))"

text \<open>
  The streamed chat without files: the formatted messages of lines 466 to 489 and their
  templates, lines 494 to 499.
\<close>

definition stream_formatted_messages :: "string \<Rightarrow> string \<Rightarrow> message list \<Rightarrow> string \<Rightarrow> exn + message list" where
  "stream_formatted_messages prov system_prompt messages query_text =
     (let formatted_messages = [];
          formatted_messages =
            (if lower prov \<noteq> ''anthropic''
             then formatted_messages @ [mk_message ''system'' (PStr system_prompt)]
             else formatted_messages)
      in case copy_history (butlast messages) formatted_messages of
           Inl e \<Rightarrow> Inl e
         | Inr formatted_messages \<Rightarrow>
             Inr (formatted_messages @ [mk_message ''user'' (PStr query_text)]))"

fun role_templates :: "message list \<Rightarrow> exn + prompt_template list" where
  "role_templates [] = Inr []"
| "role_templates (msg # rest) =
     (case subscript msg ''role'' of
        Inl e \<Rightarrow> Inl e
      | Inr r \<Rightarrow>
          (case subscript msg ''content'' of
             Inl e \<Rightarrow> Inl e
           | Inr c \<Rightarrow>
               (case template_text c of
                  Inl e \<Rightarrow> Inl e
                | Inr t \<Rightarrow>
                    (case role_templates rest of
                       Inl e \<Rightarrow> Inl e
                     | Inr ts \<Rightarrow>
                         Inr ((if r = PStr ''system'' then SystemTemplate t
                               else if r = PStr ''user'' then HumanTemplate t
                               else AITemplate t) # ts)))))"

section \<open>System templates and retrieved context\<close>

record doc =
  page_content :: string
  doc_source :: "string option"

text \<open>Lines 265 to 272: the retrieved chunks, each under its source tag when it has one.\<close>

definition format_context :: "doc list \<Rightarrow> string" where
  "format_context docs =
     join ''\<newline>\<newline>''
       (map (\<lambda>d. case doc_source d of
                    Some src \<Rightarrow> ''[Source: '' @ src @ '']\<newline>'' @ page_content d
                  | None \<Rightarrow> page_content d) docs)"

definition rag_intro :: string where
  "rag_intro =
     ''You are a helpful AI assistant. Use the following context from the provided documents to answer the user's question. If the answer cannot be found in the context, say so.\<newline>\<newline>Context from documents:\<newline>''"

text \<open>Lines 276 to 284: the placeholder \<open>{chat_history}\<close> stays in the template.\<close>

definition rag_system_template :: "string \<Rightarrow> string" where
  "rag_system_template ctx =
     rag_intro @ ctx
       @ ''\<newline>\<newline>Previous conversation:\<newline>{chat_history}\<newline>\<newline>Now, please answer the user's question based on the above context.''"

text \<open>Line 286.\<close>

definition plain_system_template :: "string \<Rightarrow> string" where
  "plain_system_template system_prompt =
     system_prompt @ ''\<newline>\<newline>Previous conversation:\<newline>{chat_history}''"

text \<open>An f-string prints \<^verbatim>\<open>None\<close> as \<open>None\<close>.\<close>

definition fstr :: "string option \<Rightarrow> string" where
  "fstr f = (case f of None \<Rightarrow> ''None'' | Some s \<Rightarrow> s)"

text \<open>Line 322.\<close>

definition chat_history_str :: "ChatTurn list \<Rightarrow> string" where
  "chat_history_str hist =
     join ''\<newline>''
       (map (\<lambda>h. ''User: '' @ fstr (prompt h) @ ''\<newline>Assistant: '' @ fstr (response h))
          (filter (\<lambda>h. truthy (field_val (response h))) hist))"

text \<open>Lines 325 to 337.\<close>

definition direct_system_content :: "bool \<Rightarrow> string \<Rightarrow> string \<Rightarrow> ChatTurn list \<Rightarrow> string" where
  "direct_system_content has_store system_prompt ctx hist =
     (if has_store then
        rag_intro @ ctx @ ''\<newline>\<newline>Previous conversation:\<newline>'' @ chat_history_str hist
          @ ''\<newline>\<newline>Now, please answer the user's question based on the above context and the images provided.''
      else system_prompt @ ''\<newline>\<newline>Previous conversation:\<newline>'' @ chat_history_str hist)"

text \<open>\<^verbatim>\<open>full_response.split("\n\n")[0]\<close>.\<close>

fun first_paragraph :: "string \<Rightarrow> string" where
  "first_paragraph (a # b # rest) =
     (if a = CHR 0x0A \<and> b = CHR 0x0A then [] else a # first_paragraph (b # rest))"
| "first_paragraph s = s"

section \<open>The generation flows\<close>

text \<open>
  A request, and what a flow does to the outside: the chunks it yields (for the three
  flows that return one string, the parts of that string) and the calls it makes to its
  collaborators, in order. Wall-clock time is not modelled: the marker
  \<open>[OUTPUT_TIME]\<close> carries no number, and the records leave out their time stamps and
  the user document's identifiers.
\<close>

record request =
  req_query :: string
  req_files :: "string list"
  req_chat_history :: "ChatTurn list"
  req_model :: string
  req_email :: string
  req_sessionId :: string
  req_reGenerate :: bool
  req_chatType :: int

record chat_log =
  log_email :: string
  log_sessionId :: string
  log_reGenerate :: bool
  log_title :: string
  log_prompt :: string
  log_response :: string
  log_inputToken :: int
  log_outputToken :: int
  log_chatType :: int
  log_fileUrls :: "string list"
  log_model :: string
  log_points :: rat

record usage_log =
  usage_modelId :: string
  usage_input :: int
  usage_output :: int
  usage_total :: int
  usage_points :: rat

datatype chunk =
    Chunk string
  | InvalidConfiguration
  | PointsMarker rat
  | OutputTimeMarker
  | ErrorPayload nat string

datatype event =
    Initialize string
  | BuildVectorStore "string list"
  | Retrieve string
  | CheckAvailable rat bool
  | LLMDirect llm_client "message list"
  | LLMChain llm_client "prompt_template list" "(string \<times> string) list"
  | GenerateImage string
  | CreateSpeech string
  | SaveChatLog chat_log
  | SaveUsageLog usage_log
  | SaveUserPoints rat

text \<open>
  The collaborators, as the answers they give: the settings and the tokenizer, the point
  service (\<open>w_init_user\<close>: the exception \<^verbatim>\<open>user_point.initialize\<close> raises, if any;
  \<open>w_check_available\<close>: \<^verbatim>\<open>check_user_available_to_chat\<close>), the database, the file
  processor, the vector store (\<open>w_vector_store\<close>: \<^verbatim>\<open>_get_vector_store\<close>, which
  answers a store, \<^verbatim>\<open>None\<close> or raises; \<open>w_retrieve\<close>: the retriever of a store with
  its \<open>k\<close>), the image download, the model (streamed: the chunks, and the exception that
  ends the stream, if any), the image and speech endpoints and the object storage
  (\<open>w_store_image\<close>: the CDN URL, or \<open>None\<close> when download or upload fails). The three
  calls that persist (\<^verbatim>\<open>save_chat_log\<close>, \<^verbatim>\<open>save_usage_log\<close>,
  \<^verbatim>\<open>save_user_points\<close>) are taken to succeed.
\<close>

record world =
  w_settings :: settings
  w_tiktoken :: tiktoken
  w_repr :: "pyval \<Rightarrow> string"
  w_init_user :: "string \<Rightarrow> exn option"
  w_check_available :: "rat \<Rightarrow> AiConfig \<Rightarrow> bool"
  w_get_ai_config :: "string \<Rightarrow> AiConfig option"
  w_db_system_prompt :: string
  w_identify_files :: "string list \<Rightarrow> string list \<times> string list"
  w_vector_store :: "string list \<Rightarrow> exn + nat option"
  w_retrieve :: "nat \<Rightarrow> nat option \<Rightarrow> string \<Rightarrow> exn + doc list"
  w_fetch_image :: "string \<Rightarrow> string option"
  w_llm_stream :: "llm_client \<Rightarrow> message list \<Rightarrow> string list \<times> exn option"
  w_llm_invoke :: "llm_client \<Rightarrow> message list \<Rightarrow> exn + string"
  w_chain_stream ::
    "llm_client \<Rightarrow> prompt_template list \<Rightarrow> (string \<times> string) list \<Rightarrow> string list \<times> exn option"
  w_chain_invoke ::
    "llm_client \<Rightarrow> prompt_template list \<Rightarrow> (string \<times> string) list \<Rightarrow> exn + string"
  w_image_generate :: "string \<Rightarrow> exn + string \<times> token_usage option"
  w_store_image :: "string \<Rightarrow> string option"
  w_speech_create :: "string \<Rightarrow> exn + string"
  w_store_audio :: "string \<Rightarrow> exn + string"

subsection \<open>Control flow\<close>

text \<open>
  A step of a flow either goes on with a value, returns from the flow
  (\<^verbatim>\<open>return\<close> inside the \<^verbatim>\<open>try\<close>), or raises; what was yielded and called so far
  is kept in every case.
\<close>

record flow_state =
  emitted :: "chunk list"
  calls :: "event list"

datatype 'a outcome = Normal 'a | Returned | Raised exn

type_synonym 'a flow = "flow_state \<Rightarrow> 'a outcome \<times> flow_state"

definition unit_flow :: "'a \<Rightarrow> 'a flow" where
  "unit_flow x = (\<lambda>s. (Normal x, s))"

definition return_flow :: "'a flow" where
  "return_flow = (\<lambda>s. (Returned, s))"

definition raise_flow :: "exn \<Rightarrow> 'a flow" where
  "raise_flow e = (\<lambda>s. (Raised e, s))"

definition bind_flow :: "'a flow \<Rightarrow> ('a \<Rightarrow> 'b flow) \<Rightarrow> 'b flow" where
  "bind_flow m k =
     (\<lambda>s. case m s of
             (Normal x, s') \<Rightarrow> k x s'
           | (Returned, s') \<Rightarrow> (Returned, s')
           | (Raised e, s') \<Rightarrow> (Raised e, s'))"

definition then_flow :: "unit flow \<Rightarrow> 'b flow \<Rightarrow> 'b flow" where
  "then_flow m k = bind_flow m (\<lambda>u. k)"

definition try_except :: "'a flow \<Rightarrow> (exn \<Rightarrow> 'a flow) \<Rightarrow> 'a flow" where
  "try_except m handler =
     (\<lambda>s. case m s of
             (Raised e, s') \<Rightarrow> handler e s'
           | r \<Rightarrow> r)"

definition emit :: "chunk \<Rightarrow> unit flow" where
  "emit c = (\<lambda>s. (Normal (), s\<lparr>emitted := emitted s @ [c]\<rparr>))"

definition call :: "event \<Rightarrow> unit flow" where
  "call ev = (\<lambda>s. (Normal (), s\<lparr>calls := calls s @ [ev]\<rparr>))"

definition lift :: "exn + 'a \<Rightarrow> 'a flow" where
  "lift r = (case r of Inl e \<Rightarrow> raise_flow e | Inr x \<Rightarrow> unit_flow x)"

text \<open>The loop over the streamed chunks: an empty chunk is skipped.\<close>

fun emit_chunks :: "string list \<Rightarrow> string \<Rightarrow> string flow" where
  "emit_chunks [] full_response = unit_flow full_response"
| "emit_chunks (c # cs) full_response =
     (if c \<noteq> [] then then_flow (emit (Chunk c)) (emit_chunks cs (full_response @ c))
      else emit_chunks cs full_response)"

subsection \<open>Steps the flows share\<close>

definition insufficient_points :: string where
  "insufficient_points = ''Insufficient points available''"

definition processing_error :: string where
  "processing_error = ''An error occurred while processing your request''"

text \<open>
  The quota check of lines 299 to 312, 688 to 700, 821 to 833, 995 to 1007 and 1214 to
  1226.
\<close>

definition quota_gate :: "world \<Rightarrow> AiConfig \<Rightarrow> rat \<Rightarrow> unit flow" where
  "quota_gate w ai_config estimated_points =
     (let check_user_available_to_chat = w_check_available w estimated_points ai_config
      in then_flow (call (CheckAvailable estimated_points check_user_available_to_chat))
           (if \<not> check_user_available_to_chat
            then then_flow (emit (ErrorPayload 429 insufficient_points)) return_flow
            else unit_flow ()))"

text \<open>The three calls that end a successful flow.\<close>

definition persist :: "request \<Rightarrow> string \<Rightarrow> string \<Rightarrow> token_usage \<Rightarrow> rat \<Rightarrow> unit flow" where
  "persist rq title full_response usage points =
     then_flow
       (call (SaveChatLog
          \<lparr>log_email = req_email rq, log_sessionId = req_sessionId rq,
           log_reGenerate = req_reGenerate rq, log_title = title,
           log_prompt = req_query rq, log_response = full_response,
           log_inputToken = prompt_tokens usage, log_outputToken = completion_tokens usage,
           log_chatType = req_chatType rq, log_fileUrls = req_files rq,
           log_model = req_model rq, log_points = points\<rparr>))
       (then_flow
          (call (SaveUsageLog
             \<lparr>usage_modelId = req_model rq, usage_input = prompt_tokens usage,
              usage_output = completion_tokens usage, usage_total = total_tokens usage,
              usage_points = points\<rparr>))
          (call (SaveUserPoints points)))"

definition start_flow :: "world \<Rightarrow> request \<Rightarrow> unit flow" where
  "start_flow w rq =
     then_flow (call (Initialize (req_email rq)))
       (case w_init_user w (req_email rq) of Some e \<Rightarrow> raise_flow e | None \<Rightarrow> unit_flow ())"

definition estimation_model :: "AiConfig \<Rightarrow> string" where
  "estimation_model ai_config =
     (if lower (provider ai_config) = ''edith'' then ''llama3.1-8b'' else model ai_config)"

text \<open>
  Lines 238 to 292 of the streamed chat and 629 to 681 of the sync chat, which are the
  same: files, vector store, messages, context, system template, current question.
\<close>

record prepared =
  pr_image_files :: "string list"
  pr_has_store :: bool
  pr_messages :: "message list"
  pr_system_prompt :: string
  pr_system_template :: string
  pr_context :: string
  pr_current_question_msg :: message

definition prepare_files :: "world \<Rightarrow> request \<Rightarrow> AiConfig \<Rightarrow> prepared flow" where
  "prepare_files w rq ai_config =
     (case w_identify_files w (req_files rq) of (image_files, text_files) \<Rightarrow>
        bind_flow
          (if text_files \<noteq> []
           then then_flow (call (BuildVectorStore text_files)) (lift (w_vector_store w text_files))
           else unit_flow None)
          (\<lambda>vector_store.
             case get_chat_messages (w_db_system_prompt w) (req_chat_history rq) (provider ai_config) of
               (messages, system_prompt) \<Rightarrow>
             (let messages =
                    (if imageSupport ai_config \<and> image_files \<noteq> []
                     then messages @ [create_multimodal_message (w_settings w) (w_fetch_image w)
                                        (req_query rq) image_files (provider ai_config)]
                     else messages @ [mk_message ''user'' (PStr (req_query rq))])
              in bind_flow
                   (case vector_store of
                      Some vs \<Rightarrow>
                        then_flow (call (Retrieve (req_query rq)))
                          (bind_flow (lift (w_retrieve w vs (Some 4) (req_query rq)))
                             (\<lambda>docs. unit_flow (rag_system_template (format_context docs),
                                                format_context docs)))
                    | None \<Rightarrow> unit_flow (plain_system_template system_prompt, []))
                   (\<lambda>(system_template, ctx).
                      unit_flow
                        \<lparr>pr_image_files = image_files,
                         pr_has_store = (vector_store \<noteq> None),
                         pr_messages = messages,
                         pr_system_prompt = system_prompt,
                         pr_system_template = system_template,
                         pr_context = ctx,
                         pr_current_question_msg =
                           (if imageSupport ai_config \<and> image_files \<noteq> []
                            then create_multimodal_message (w_settings w) (w_fetch_image w)
                                   (req_query rq) image_files (provider ai_config)
                            else mk_message ''user'' (PStr (req_query rq)))\<rparr>))))"

text \<open>Lines 295 to 312 and 684 to 700: the estimate and the quota check.\<close>

definition estimate_and_check ::
    "world \<Rightarrow> AiConfig \<Rightarrow> message list \<Rightarrow> string \<Rightarrow> string \<Rightarrow> unit flow" where
  "estimate_and_check w ai_config messages system_template ctx =
     bind_flow
       (lift (estimate_total_tokens (w_tiktoken w) messages system_template
                (estimation_model ai_config) ctx))
       (\<lambda>estimated_tokens.
          quota_gate w ai_config
            (get_points (prompt_tokens estimated_tokens) (completion_tokens estimated_tokens)
               ai_config))"

subsection \<open>\<open>generate_stream_response\<close>, lines 205 to 598\<close>

text \<open>
  The branch with files, lines 236 to 459. \<open>track_actual_token_usage\<close> and
  \<open>get_points\<close> do not raise, so the \<^verbatim>\<open>except\<close> branches that yield \<open>[POINTS]0\<close>
  are never taken.
\<close>

definition stream_with_files ::
    "world \<Rightarrow> request \<Rightarrow> AiConfig \<Rightarrow> llm_client \<Rightarrow> (string \<times> rat \<times> token_usage) flow" where
  "stream_with_files w rq ai_config llm =
     bind_flow (prepare_files w rq ai_config)
       (\<lambda>p.
          then_flow
            (estimate_and_check w ai_config (pr_messages p) (pr_system_template p) (pr_context p))
            (if imageSupport ai_config \<and> pr_image_files p \<noteq> [] then
               bind_flow
                 (lift (build_direct_messages (provider ai_config)
                          (direct_system_content (pr_has_store p) (pr_system_prompt p)
                             (pr_context p) (req_chat_history rq))
                          (pr_messages p) (pr_current_question_msg p)))
                 (\<lambda>direct_messages.
                    then_flow (call (LLMDirect llm direct_messages))
                      (case w_llm_stream w llm direct_messages of (chunks, failure) \<Rightarrow>
                         bind_flow (emit_chunks chunks [])
                           (\<lambda>full_response.
                              case failure of
                                Some e \<Rightarrow> raise_flow HTTPException
                              | None \<Rightarrow>
                                  (let usage = track_actual_token_usage (w_tiktoken w)
                                                 direct_messages full_response (model ai_config);
                                       points = get_points (prompt_tokens usage)
                                                  (completion_tokens usage) ai_config
                                   in then_flow (emit (PointsMarker points))
                                        (unit_flow (full_response, points, usage))))))
             else
               bind_flow
                 (lift (files_prompt (w_repr w) (pr_system_template p) (pr_messages p)
                          (pr_current_question_msg p)))
                 (\<lambda>prompt_templates.
                    then_flow
                      (call (LLMChain llm prompt_templates
                               [(''chat_history'', chat_history_str (req_chat_history rq))]))
                      (case w_chain_stream w llm prompt_templates
                              [(''chat_history'', chat_history_str (req_chat_history rq))] of
                         (chunks, failure) \<Rightarrow>
                         bind_flow (emit_chunks chunks [])
                           (\<lambda>full_response.
                              case failure of
                                Some e \<Rightarrow> raise_flow HTTPException
                              | None \<Rightarrow>
                                  (let usage = track_actual_token_usage (w_tiktoken w)
                                                 (pr_messages p) full_response (model ai_config);
                                       points = get_points (prompt_tokens usage)
                                                  (completion_tokens usage) ai_config
                                   in then_flow (emit (PointsMarker points))
                                        (unit_flow (full_response, points, usage))))))))"

text \<open>The branch without files, lines 460 to 551.\<close>

definition stream_without_files ::
    "world \<Rightarrow> request \<Rightarrow> AiConfig \<Rightarrow> llm_client \<Rightarrow> (string \<times> rat \<times> token_usage) flow" where
  "stream_without_files w rq ai_config llm =
     (case get_chat_messages (w_db_system_prompt w) (req_chat_history rq) (provider ai_config) of
        (messages, system_prompt) \<Rightarrow>
        try_except
          (bind_flow
             (lift (stream_formatted_messages (provider ai_config) system_prompt messages
                      (req_query rq)))
             (\<lambda>formatted_messages.
                bind_flow (lift (role_templates formatted_messages))
                  (\<lambda>prompt_templates.
                     then_flow (call (LLMChain llm prompt_templates []))
                       (case w_chain_stream w llm prompt_templates [] of (chunks, failure) \<Rightarrow>
                          bind_flow (emit_chunks chunks [])
                            (\<lambda>full_response.
                               case failure of
                                 Some e \<Rightarrow> raise_flow HTTPException
                               | None \<Rightarrow>
                                   (let usage = track_actual_token_usage (w_tiktoken w)
                                                  formatted_messages full_response (model ai_config);
                                        points = get_points (prompt_tokens usage)
                                                   (completion_tokens usage) ai_config
                                    in then_flow (emit (PointsMarker points))
                                         (unit_flow (full_response, points, usage))))))))
          (\<lambda>e. then_flow (emit (ErrorPayload 500 processing_error)) (raise_flow e)))"

definition initial_state :: flow_state where
  "initial_state = \<lparr>emitted = [], calls = []\<rparr>"

definition generate_stream_response :: "world \<Rightarrow> request \<Rightarrow> flow_state" where
  "generate_stream_response w rq =
     snd (try_except
            (then_flow (start_flow w rq)
               (case w_get_ai_config w (req_model rq) of
                  None \<Rightarrow> then_flow (emit InvalidConfiguration) return_flow
                | Some ai_config \<Rightarrow>
                    (let llm = get_llm (w_settings w) ai_config True
                     in bind_flow
                          (if req_files rq \<noteq> [] then stream_with_files w rq ai_config llm
                           else stream_without_files w rq ai_config llm)
                          (\<lambda>(full_response, points, usage).
                             then_flow (emit OutputTimeMarker)
                               (persist rq (first_paragraph full_response) full_response
                                  usage points)))))
            (\<lambda>e. emit (ErrorPayload 500 processing_error))
            initial_state)"

subsection \<open>\<open>generate_text_response\<close>, lines 600 to 913\<close>

text \<open>The branch with files, lines 627 to 804.\<close>

definition text_with_files ::
    "world \<Rightarrow> request \<Rightarrow> AiConfig \<Rightarrow> llm_client \<Rightarrow> (string \<times> rat \<times> token_usage) flow" where
  "text_with_files w rq ai_config llm =
     bind_flow (prepare_files w rq ai_config)
       (\<lambda>p.
          then_flow
            (estimate_and_check w ai_config (pr_messages p) (pr_system_template p) (pr_context p))
            (bind_flow
               (if imageSupport ai_config \<and> pr_image_files p \<noteq> [] then
                  bind_flow
                    (lift (build_direct_messages (provider ai_config)
                             (direct_system_content (pr_has_store p) (pr_system_prompt p)
                                (pr_context p) (req_chat_history rq))
                             (pr_messages p) (pr_current_question_msg p)))
                    (\<lambda>direct_messages.
                       then_flow (call (LLMDirect llm direct_messages))
                         (bind_flow (lift (w_llm_invoke w llm direct_messages))
                            (\<lambda>full_response.
                               unit_flow
                                 (full_response,
                                  track_actual_token_usage (w_tiktoken w) direct_messages
                                    full_response (model ai_config)))))
                else
                  bind_flow
                    (lift (files_prompt (w_repr w) (pr_system_template p) (pr_messages p)
                             (pr_current_question_msg p)))
                    (\<lambda>prompt_templates.
                       then_flow
                         (call (LLMChain llm prompt_templates
                                  [(''chat_history'', chat_history_str (req_chat_history rq))]))
                         (bind_flow
                            (lift (w_chain_invoke w llm prompt_templates
                                     [(''chat_history'', chat_history_str (req_chat_history rq))]))
                            (\<lambda>full_response.
                               unit_flow
                                 (full_response,
                                  track_actual_token_usage (w_tiktoken w) (pr_messages p)
                                    full_response (estimation_model ai_config))))))
               (\<lambda>(full_response, usage).
                  unit_flow
                    (full_response,
                     get_points (prompt_tokens usage) (completion_tokens usage) ai_config,
                     usage))))"

text \<open>The branch without files, lines 806 to 864.\<close>

definition text_without_files ::
    "world \<Rightarrow> request \<Rightarrow> AiConfig \<Rightarrow> llm_client \<Rightarrow> (string \<times> rat \<times> token_usage) flow" where
  "text_without_files w rq ai_config llm =
     (case get_chat_messages (w_db_system_prompt w) (req_chat_history rq) (provider ai_config) of
        (messages, system_prompt) \<Rightarrow>
        (let messages = messages @ [mk_message ''user'' (PStr (req_query rq))];
             system_template = plain_system_template system_prompt
         in then_flow (estimate_and_check w ai_config messages system_template [])
              (bind_flow (lift (text_prompt (w_repr w) system_template messages (req_query rq)))
                 (\<lambda>prompt_templates.
                    then_flow
                      (call (LLMChain llm prompt_templates
                               [(''chat_history'', chat_history_str (req_chat_history rq))]))
                      (bind_flow
                         (lift (w_chain_invoke w llm prompt_templates
                                  [(''chat_history'', chat_history_str (req_chat_history rq))]))
                         (\<lambda>full_response.
                            (let usage = track_actual_token_usage (w_tiktoken w) messages
                                           full_response (estimation_model ai_config)
                             in unit_flow
                                  (full_response,
                                   get_points (prompt_tokens usage) (completion_tokens usage)
                                     ai_config,
                                   usage))))))))"

text \<open>
  The string a sync flow returns on success: the answer and the two markers.
\<close>

definition emit_response :: "string \<Rightarrow> rat \<Rightarrow> unit flow" where
  "emit_response full_response points =
     then_flow (emit (Chunk full_response))
       (then_flow (emit (PointsMarker points)) (emit OutputTimeMarker))"

definition generate_text_response :: "world \<Rightarrow> request \<Rightarrow> flow_state" where
  "generate_text_response w rq =
     snd (try_except
            (then_flow (start_flow w rq)
               (case w_get_ai_config w (req_model rq) of
                  None \<Rightarrow> then_flow (emit InvalidConfiguration) return_flow
                | Some ai_config \<Rightarrow>
                    (let llm = get_llm (w_settings w) ai_config False
                     in bind_flow
                          (if req_files rq \<noteq> [] then text_with_files w rq ai_config llm
                           else text_without_files w rq ai_config llm)
                          (\<lambda>(full_response, points, usage).
                             then_flow
                               (persist rq (first_paragraph full_response) full_response
                                  usage points)
                               (emit_response full_response points)))))
            (\<lambda>e. emit (ErrorPayload 500 processing_error))
            initial_state)"

subsection \<open>\<open>generate_image_response\<close> and \<open>generate_audio_response\<close>\<close>

text \<open>
  Lines 961 to 987 and 1180 to 1206: the enhanced query. The messages both flows build
  here are not used afterwards.
\<close>

definition enhanced_query ::
    "world \<Rightarrow> request \<Rightarrow> string \<Rightarrow> string flow" where
  "enhanced_query w rq instruction =
     (if req_files rq \<noteq> [] then
        (case w_identify_files w (req_files rq) of (image_files, text_files) \<Rightarrow>
           bind_flow
             (if text_files \<noteq> []
              then then_flow (call (BuildVectorStore text_files)) (lift (w_vector_store w text_files))
              else unit_flow None)
             (\<lambda>vector_store.
                case vector_store of
                  Some vs \<Rightarrow>
                    then_flow (call (Retrieve (req_query rq)))
                      (bind_flow (lift (w_retrieve w vs None (req_query rq)))
                         (\<lambda>docs.
                            unit_flow
                              (''Context from files:\<newline>''
                                 @ join ''\<newline>'' (map page_content docs)
                                 @ instruction @ req_query rq)))
                | None \<Rightarrow> unit_flow (req_query rq)))
      else unit_flow (req_query rq))"

text \<open>Lines 934 to 1132.\<close>

definition generate_image_response :: "world \<Rightarrow> request \<Rightarrow> flow_state" where
  "generate_image_response w rq =
     snd (try_except
            (then_flow (start_flow w rq)
               (case w_get_ai_config w (req_model rq) of
                  None \<Rightarrow> then_flow (emit InvalidConfiguration) return_flow
                | Some ai_config \<Rightarrow>
                    bind_flow
                      (enhanced_query w rq
                         ''\<newline>\<newline>Generate image based on this context and the following description: '')
                      (\<lambda>enhanced.
                         (let estimated_tokens = estimate_image_tokens enhanced
                          in then_flow
                               (quota_gate w ai_config
                                  (get_points (prompt_tokens estimated_tokens)
                                     (completion_tokens estimated_tokens) ai_config))
                               (then_flow (call (GenerateImage enhanced))
                                  (bind_flow (lift (w_image_generate w enhanced))
                                     (\<lambda>(image_url, reported).
                                        (let full_response =
                                               (case w_store_image w image_url of
                                                  Some cdn \<Rightarrow> cdn | None \<Rightarrow> image_url);
                                             usage = (case reported of
                                                        Some u \<Rightarrow> u | None \<Rightarrow> estimated_tokens);
                                             points = get_points (prompt_tokens usage)
                                                        (completion_tokens usage) ai_config
                                         in then_flow
                                              (persist rq ''Image Generation'' full_response
                                                 usage points)
                                              (emit_response full_response points)))))))))
            (\<lambda>e. emit (ErrorPayload 500 processing_error))
            initial_state)"

text \<open>Lines 1153 to 1329.\<close>

definition generate_audio_response :: "world \<Rightarrow> request \<Rightarrow> flow_state" where
  "generate_audio_response w rq =
     snd (try_except
            (then_flow (start_flow w rq)
               (case w_get_ai_config w (req_model rq) of
                  None \<Rightarrow> then_flow (emit InvalidConfiguration) return_flow
                | Some ai_config \<Rightarrow>
                    bind_flow
                      (enhanced_query w rq
                         ''\<newline>\<newline>Generate audio based on this context and the following text: '')
                      (\<lambda>enhanced.
                         (let estimated_tokens = estimate_audio_tokens enhanced
                          in then_flow
                               (quota_gate w ai_config
                                  (get_points (prompt_tokens estimated_tokens)
                                     (completion_tokens estimated_tokens) ai_config))
                               (then_flow (call (CreateSpeech enhanced))
                                  (bind_flow (lift (w_speech_create w enhanced))
                                     (\<lambda>audio.
                                        bind_flow (lift (w_store_audio w audio))
                                          (\<lambda>full_response.
                                             (let usage = estimate_audio_tokens enhanced;
                                                  points = get_points (prompt_tokens usage)
                                                             (completion_tokens usage) ai_config
                                              in then_flow
                                                   (persist rq ''Audio Generation'' full_response
                                                      usage points)
                                                   (emit_response full_response points))))))))))
            (\<lambda>e. emit (ErrorPayload 500 processing_error))
            initial_state)"


section \<open>Notions used to state the claims\<close>

text \<open>
  The definitions of this section are not code of the service: they name what the
  claims say, so that the theorems can compare it with the functions above.
\<close>




text \<open>The encoded length of a string (0 where the encoding refuses it).\<close>

definition tokens_of :: "encoding \<Rightarrow> string \<Rightarrow> int" where
  "tokens_of enc s = (case enc s of Inl e \<Rightarrow> 0 | Inr toks \<Rightarrow> int (length toks))"

text \<open>
  The estimate as C6 words it: the encoded length of a text part (of the empty string
  when the part has no \<open>text\<close> field), 85 tokens for an image part with detail
  \<open>low\<close> and 170 otherwise.
\<close>

definition claimed_part_tokens :: "encoding \<Rightarrow> pyval \<Rightarrow> int" where
  "claimed_part_tokens enc item =
     (case item of
        PDict d \<Rightarrow>
          if map_of d ''type'' = Some (PStr ''text'') then
            (case map_of d ''text'' of
               None \<Rightarrow> tokens_of enc []
             | Some (PStr t) \<Rightarrow> tokens_of enc t
             | Some _ \<Rightarrow> 0)
          else if map_of d ''type'' = Some (PStr ''image_url'') then
            (case map_of d ''image_url'' of
               Some (PDict iu) \<Rightarrow> if map_of iu ''detail'' = Some (PStr ''low'') then 85 else 170
             | _ \<Rightarrow> 170)
          else if map_of d ''type'' = Some (PStr ''image'') then 170
          else 0
      | _ \<Rightarrow> 0)"

text \<open>The text and image parts of a content: a string content is one text part.\<close>

definition claimed_content_tokens :: "encoding \<Rightarrow> pyval \<Rightarrow> int" where
  "claimed_content_tokens enc content =
     (case content of
        PStr s \<Rightarrow> tokens_of enc s
      | PList items \<Rightarrow> sum_list (map (claimed_part_tokens enc) items)
      | PDict d \<Rightarrow> (case map_of d ''text'' of Some (PStr t) \<Rightarrow> tokens_of enc t | _ \<Rightarrow> 0)
      | _ \<Rightarrow> 0)"

text \<open>Per message: 4 tokens, minus 1 when a \<open>name\<close> field is present, plus the parts.\<close>

definition claimed_message_tokens :: "encoding \<Rightarrow> message \<Rightarrow> int" where
  "claimed_message_tokens enc msg =
     4 - (if ''name'' \<in> fst ` set msg then 1 else 0)
       + (case map_of msg ''content'' of None \<Rightarrow> 0 | Some c \<Rightarrow> claimed_content_tokens enc c)"

text \<open>The sum over the messages, the 2 priming tokens, the system template and the context.\<close>

definition claimed_prompt_tokens :: "encoding \<Rightarrow> message list \<Rightarrow> string \<Rightarrow> string \<Rightarrow> int" where
  "claimed_prompt_tokens enc messages system_template ctx =
     sum_list (map (claimed_message_tokens enc) messages) + 2
       + tokens_of enc system_template + tokens_of enc ctx"

text \<open>\<open>min(1.5 \<times> prompt_tokens, 2000)\<close>, as a rational number.\<close>

definition claimed_completion_tokens :: "int \<Rightarrow> rat" where
  "claimed_completion_tokens p = min (1.5 * of_int p) 2000"

text \<open>
  What the source counts beyond C6's words: the encoded length of every string-valued
  field of a message other than \<open>content\<close> (\<open>role\<close>, \<open>name\<close>, ...).
\<close>

definition other_field_tokens :: "encoding \<Rightarrow> message \<Rightarrow> int" where
  "other_field_tokens enc msg =
     sum_list (map (\<lambda>(k, v). if k = ''content'' then 0
                              else (case v of PStr s \<Rightarrow> tokens_of enc s | _ \<Rightarrow> 0)) msg)"

text \<open>What one field of a message adds to the running count.\<close>

definition field_cost :: "encoding \<Rightarrow> string \<times> pyval \<Rightarrow> int" where
  "field_cost enc kv =
     (case kv of (k, v) \<Rightarrow>
        (if k = ''content'' then claimed_content_tokens enc v
         else (case v of PStr s \<Rightarrow> tokens_of enc s | _ \<Rightarrow> 0))
        - (if k = ''name'' then 1 else 0))"

text \<open>
  A tokenizer to run the functions on: one token per character; like the real
  \<^verbatim>\<open>encode\<close> it refuses some texts, here those that hold the character \<open>|\<close>.
\<close>

definition char_encoding :: encoding where
  "char_encoding s = (if CHR ''|'' \<in> set s then Inl ValueError else Inr (map of_char s))"

text \<open>It knows the model \<open>gpt-4\<close> and answers the same encoding under every name.\<close>

definition char_tiktoken :: tiktoken where
  "char_tiktoken =
     \<lparr>tiktoken_encoding_for_model = (\<lambda>m. if m = ''gpt-4'' then Some char_encoding else None),
      tiktoken_get_encoding = (\<lambda>name. char_encoding)\<rparr>"

section \<open>A world to run the flows in\<close>

text \<open>
  A point service that refuses every request, one configuration per model name, the
  character tokenizer and a model that answers \<open>ok\<close>.
\<close>

definition demo_settings :: settings where
  "demo_settings =
     \<lparr>OPENAI_API_KEY = ''k-openai'', ANTHROPIC_API_KEY = ''k-anthropic'',
      DEEPSEEK_API_KEY = ''k-deepseek'', GOOGLE_API_KEY = ''k-google'', XAI_API_KEY = ''k-xai'',
      OLLAMA_BASE_URL = ''http://ollama'', MISTRAL_API_KEY = ''k-mistral'',
      CEREBRAS_API_KEY = ''k-cerebras'', OPENROUTER_API_KEY = ''k-openrouter'',
      AWS_CDN_URL = ''https://cdn''\<rparr>"

definition demo_world :: "bool \<Rightarrow> world" where
  "demo_world enough_points =
     \<lparr>w_settings = demo_settings,
      w_tiktoken = char_tiktoken,
      w_repr = (\<lambda>v. ''?''),
      w_init_user = (\<lambda>email. None),
      w_check_available = (\<lambda>estimated_points ai_config. enough_points),
      w_get_ai_config =
        (\<lambda>m. if m = ''gpt-4'' then
                 Some \<lparr>provider = ''openai'', model = ''gpt-4'', inputCost = 1 / 100,
                       outputCost = 3 / 100, multiplier = 1, imageSupport = True\<rparr>
               else if m = ''claude'' then
                 Some \<lparr>provider = ''anthropic'', model = ''claude'', inputCost = 1 / 100,
                       outputCost = 3 / 100, multiplier = 1, imageSupport = True\<rparr>
               else None),
      w_db_system_prompt = ''Be kind.'',
      w_identify_files = (\<lambda>fs. ([], fs)),
      w_vector_store = (\<lambda>fs. Inr None),
      w_retrieve = (\<lambda>vs k q. Inr []),
      w_fetch_image = (\<lambda>url. None),
      w_llm_stream = (\<lambda>llm msgs. ([''ok''], None)),
      w_llm_invoke = (\<lambda>llm msgs. Inr ''ok''),
      w_chain_stream = (\<lambda>llm ts vars. ([''ok''], None)),
      w_chain_invoke = (\<lambda>llm ts vars. Inr ''ok''),
      w_image_generate = (\<lambda>q. Inr (''https://img'', None)),
      w_store_image = (\<lambda>url. None),
      w_speech_create = (\<lambda>q. Inr ''mp3''),
      w_store_audio = (\<lambda>a. Inr ''https://cdn/audio.mp3'')\<rparr>"

definition demo_request :: "string \<Rightarrow> string list \<Rightarrow> request" where
  "demo_request m fs =
     \<lparr>req_query = ''Hello'', req_files = fs, req_chat_history = [], req_model = m,
      req_email = ''a@b.c'', req_sessionId = ''s1'', req_reGenerate = False, req_chatType = 0\<rparr>"



section \<open>Notions used to state the quota claim\<close>

text \<open>
  The calls that invoke a provider (the chat model, the image endpoint, the speech
  endpoint; the embedding calls of the vector store are not counted), the calls that
  persist, and the quota check with its answer.
\<close>

definition is_provider_call :: "event \<Rightarrow> bool" where
  "is_provider_call ev =
     (case ev of
        LLMDirect llm msgs \<Rightarrow> True
      | LLMChain llm ts vars \<Rightarrow> True
      | GenerateImage q \<Rightarrow> True
      | CreateSpeech q \<Rightarrow> True
      | _ \<Rightarrow> False)"

definition is_persist :: "event \<Rightarrow> bool" where
  "is_persist ev =
     (case ev of
        SaveChatLog r \<Rightarrow> True
      | SaveUsageLog r \<Rightarrow> True
      | SaveUserPoints p \<Rightarrow> True
      | _ \<Rightarrow> False)"

definition is_quota_check :: "event \<Rightarrow> bool" where
  "is_quota_check ev = (case ev of CheckAvailable p ok \<Rightarrow> True | _ \<Rightarrow> False)"

definition is_refusal :: "event \<Rightarrow> bool" where
  "is_refusal ev = (case ev of CheckAvailable p ok \<Rightarrow> \<not> ok | _ \<Rightarrow> False)"

text \<open>Every provider call has a quota check before it.\<close>

fun checked_before_provider :: "event list \<Rightarrow> bool" where
  "checked_before_provider [] = True"
| "checked_before_provider (ev # rest) =
     (if is_quota_check ev then True
      else if is_provider_call ev then False
      else checked_before_provider rest)"

text \<open>
  What C2 asks of the final state of a flow: a quota check before any provider call, and
  after a refused check nothing but the 429 payload, no provider call and no persisted
  record.
\<close>

definition quota_respected :: "flow_state \<Rightarrow> bool" where
  "quota_respected s =
     (checked_before_provider (calls s)
      \<and> (if list_ex is_refusal (calls s)
         then emitted s = [ErrorPayload 429 insufficient_points]
              \<and> \<not> list_ex is_provider_call (calls s) \<and> \<not> list_ex is_persist (calls s)
         else True))"

text \<open>
  Notions for the proofs about the flows: a flow only appends to what was yielded and
  called; a quiet flow yields nothing, never returns and makes only calls that neither
  invoke a provider, persist nor check the quota; a check-free flow makes no quota check;
  a gated flow runs quiet up to one quota check, ends at once with the 429 payload when
  the check is refused, and ends normally only after a check.
\<close>

definition grow :: "flow_state \<Rightarrow> chunk list \<Rightarrow> event list \<Rightarrow> flow_state" where
  "grow s cs evs = s\<lparr>emitted := emitted s @ cs, calls := calls s @ evs\<rparr>"

definition harmless :: "event \<Rightarrow> bool" where
  "harmless ev = (\<not> is_provider_call ev \<and> \<not> is_persist ev \<and> \<not> is_quota_check ev)"

fun trace_ok :: "event list \<Rightarrow> bool" where
  "trace_ok [] = True"
| "trace_ok (ev # rest) =
     (if is_quota_check ev
      then (if is_refusal ev then rest = [] else list_all (\<lambda>e. \<not> is_quota_check e) rest)
      else harmless ev \<and> trace_ok rest)"

definition quiet :: "'a flow \<Rightarrow> bool" where
  "quiet m = (\<forall>s. \<exists>out evs. m s = (out, grow s [] evs) \<and> list_all harmless evs
                \<and> out \<noteq> Returned)"

definition check_free :: "'a flow \<Rightarrow> bool" where
  "check_free m = (\<forall>s. \<exists>out cs evs. m s = (out, grow s cs evs)
                    \<and> list_all (\<lambda>e. \<not> is_quota_check e) evs)"

definition gated :: "'a flow \<Rightarrow> bool" where
  "gated m = (\<forall>s. \<exists>out cs evs. m s = (out, grow s cs evs) \<and> trace_ok evs
                \<and> (list_ex is_refusal evs \<longrightarrow>
                      cs = [ErrorPayload 429 insufficient_points] \<and> out = Returned)
                \<and> ((\<exists>x. out = Normal x) \<longrightarrow> list_ex is_quota_check evs))"


section \<open>Theorems\<close>

text \<open>
  C7: for every input string, \<open>estimate_image_tokens\<close> returns
  \<open>prompt_tokens = len(text) // 4\<close>, \<open>completion_tokens = 0\<close> and
  \<open>total_tokens = prompt_tokens\<close>, and \<open>estimate_audio_tokens\<close> satisfies the same
  postcondition.
\<close>

theorem estimate_image_audio_tokens_post:
  "prompt_tokens (estimate_image_tokens s) = int (length s) div 4
   \<and> completion_tokens (estimate_image_tokens s) = 0
   \<and> total_tokens (estimate_image_tokens s) = prompt_tokens (estimate_image_tokens s)
   \<and> prompt_tokens (estimate_audio_tokens s) = int (length s) div 4
   \<and> completion_tokens (estimate_audio_tokens s) = 0
   \<and> total_tokens (estimate_audio_tokens s) = prompt_tokens (estimate_audio_tokens s)"
  by (simp add: estimate_image_tokens_def estimate_audio_tokens_def Let_def)

text \<open>
  C10: \<open>estimate_image_tokens\<close> and \<open>estimate_audio_tokens\<close> are extensionally
  equal: they return the same token-usage record on every input string.
\<close>

theorem estimate_image_audio_tokens_equal:
  "estimate_image_tokens = estimate_audio_tokens"
  by (rule ext) (simp add: estimate_image_tokens_def estimate_audio_tokens_def)


text \<open>Dividing by the scaling constant is multiplying by 1000.\<close>

lemma get_points_scaled:
  "get_points i o' c = 1000 * multiplier c * (of_int i * inputCost c + of_int o' * outputCost c)"
  by (simp add: get_points_def)

text \<open>
  C8: for every configuration whose lower-cased provider is none of the enumerated
  vendors, \<open>_get_llm\<close> returns the OpenAI client with the configuration's model id,
  \<open>max_tokens = 2000\<close>, the given streaming flag, the OpenAI key and no base URL.
\<close>

theorem get_llm_unknown_provider:
  assumes "lower (provider ai_config) \<notin> set enumerated_vendors"
  shows "get_llm st ai_config isStream =
           \<lparr>client = ChatOpenAI, temperature = None, streaming = isStream,
            model_id = model ai_config, max_tokens = 2000,
            api_key = Some (OPENAI_API_KEY st), base_url = None, stream_usage = isStream\<rparr>"
  using assms by (simp add: get_llm_def enumerated_vendors_def)

theorem get_llm_unknown_provider_witness:
  "lower (provider \<lparr>provider = ''Groq'', model = ''mixtral'', inputCost = 1, outputCost = 2,
        multiplier = 1, imageSupport = False\<rparr>) \<notin> set enumerated_vendors
   \<and> get_llm \<lparr>OPENAI_API_KEY = ''k0'', ANTHROPIC_API_KEY = ''k1'', DEEPSEEK_API_KEY = ''k2'',
        GOOGLE_API_KEY = ''k3'', XAI_API_KEY = ''k4'', OLLAMA_BASE_URL = ''u5'',
        MISTRAL_API_KEY = ''k6'', CEREBRAS_API_KEY = ''k7'', OPENROUTER_API_KEY = ''k8'',
        AWS_CDN_URL = ''u9''\<rparr>
       \<lparr>provider = ''Groq'', model = ''mixtral'', inputCost = 1, outputCost = 2,
        multiplier = 1, imageSupport = False\<rparr> False
     = \<lparr>client = ChatOpenAI, temperature = None, streaming = False,
        model_id = ''mixtral'', max_tokens = 2000,
        api_key = Some ''k0'', base_url = None, stream_usage = False\<rparr>"
proof -
  have h: "lower (provider \<lparr>provider = ''Groq'', model = ''mixtral'', inputCost = 1, outputCost = 2,
        multiplier = 1, imageSupport = False\<rparr>) \<notin> set enumerated_vendors"
    by (simp add: enumerated_vendors_def lower_def lower_char_def)
  show ?thesis
    using h get_llm_unknown_provider [OF h, of _ False] by simp
qed

text \<open>The history loop appends, turn by turn, what each turn contributes on its own.\<close>

lemma fold_append_turn:
  "fold append_turn chats messages = messages @ concat (map (\<lambda>c. append_turn c []) chats)"
  by (induction chats arbitrary: messages) (auto simp: append_turn_def Let_def)

lemma lower_deepseek_not_others:
  "lower prov = ''deepseek'' \<Longrightarrow> prov \<noteq> ''edith'' \<and> lower prov \<noteq> ''anthropic''"
  by (auto simp: lower_def lower_char_def)

text \<open>
  C5: for provider \<open>deepseek\<close> (in any letter case), \<open>get_chat_messages\<close> keeps the
  turns with a non-empty prompt or response; when none remains or the first remaining
  turn has no prompt, it returns the system message alone; otherwise it emits the first
  turn's prompt as a user message, its response (if any) as an assistant message, and the
  remaining turns in order.
\<close>

theorem get_chat_messages_deepseek:
  assumes "lower prov = ''deepseek''"
  shows "get_chat_messages db_system_prompt chat_history prov =
     (let present = (\<lambda>f. case f of None \<Rightarrow> False | Some s \<Rightarrow> s \<noteq> []);
          body = (\<lambda>f. case f of None \<Rightarrow> [] | Some s \<Rightarrow> s);
          system_message = [(''role'', PStr ''system''), (''content'', PStr [])];
          user = (\<lambda>c. [(''role'', PStr ''user''), (''content'', PStr (body (prompt c)))]);
          assistant = (\<lambda>c. [(''role'', PStr ''assistant''), (''content'', PStr (body (response c)))]);
          turn = (\<lambda>c. (if present (prompt c) then [user c] else [])
                       @ (if present (response c) then [assistant c] else []))
      in case filter (\<lambda>c. present (prompt c) \<or> present (response c)) chat_history of
           [] \<Rightarrow> ([system_message], [])
         | first_turn # remaining \<Rightarrow>
             if present (prompt first_turn)
             then (system_message # turn first_turn @ concat (map turn remaining), [])
             else ([system_message], []))"
proof -
  let ?sys = "[(''role'', PStr ''system''), (''content'', PStr [])]"
  have tr: "truthy (field_val f) = (case f of None \<Rightarrow> False | Some s \<Rightarrow> s \<noteq> [])" for f
    by (simp add: field_val_def split: option.splits)
  have turn: "append_turn c [] =
      (if (case prompt c of None \<Rightarrow> False | Some s \<Rightarrow> s \<noteq> [])
       then [[(''role'', PStr ''user''), (''content'', PStr (case prompt c of None \<Rightarrow> [] | Some s \<Rightarrow> s))]] else [])
      @ (if (case response c of None \<Rightarrow> False | Some s \<Rightarrow> s \<noteq> [])
       then [[(''role'', PStr ''assistant''), (''content'', PStr (case response c of None \<Rightarrow> [] | Some s \<Rightarrow> s))]] else [])" for c
    by (simp add: append_turn_def tr mk_message_def field_val_def split: option.splits)
  from assms have ne: "prov \<noteq> ''edith''" and na: "lower prov \<noteq> ''anthropic''"
    using lower_deepseek_not_others by blast+
  have code: "get_chat_messages db_system_prompt chat_history prov =
      (case filter (\<lambda>c. truthy (field_val (prompt c)) \<or> truthy (field_val (response c))) chat_history of
         [] \<Rightarrow> ([?sys], [])
       | f # r \<Rightarrow>
           if truthy (field_val (prompt f))
           then (?sys # append_turn f [] @ concat (map (\<lambda>c. append_turn c []) r), [])
           else ([?sys], []))"
    using assms ne na
    by (simp add: get_chat_messages_def Let_def fold_append_turn append_turn_def mk_message_def
          split: list.splits)
  show ?thesis
    unfolding code Let_def by (simp only: tr turn cong: list.case_cong)
qed

theorem get_chat_messages_deepseek_witness:
  "lower ''DeepSeek'' = ''deepseek''
   \<and> get_chat_messages ''sp''
       [\<lparr>prompt = None, response = Some []\<rparr>,
        \<lparr>prompt = Some ''hi'', response = None\<rparr>,
        \<lparr>prompt = Some [], response = Some ''there''\<rparr>,
        \<lparr>prompt = Some ''q'', response = Some ''a''\<rparr>] ''DeepSeek''
     = ([[(''role'', PStr ''system''), (''content'', PStr [])],
         [(''role'', PStr ''user''), (''content'', PStr ''hi'')],
         [(''role'', PStr ''assistant''), (''content'', PStr ''there'')],
         [(''role'', PStr ''user''), (''content'', PStr ''q'')],
         [(''role'', PStr ''assistant''), (''content'', PStr ''a'')]], [])
   \<and> get_chat_messages ''sp''
       [\<lparr>prompt = None, response = Some ''orphan''\<rparr>,
        \<lparr>prompt = Some ''q'', response = Some ''a''\<rparr>] ''DeepSeek''
     = ([[(''role'', PStr ''system''), (''content'', PStr [])]], [])"
proof -
  have h: "lower ''DeepSeek'' = ''deepseek''"
    by (simp add: lower_def lower_char_def)
  show ?thesis
    using h get_chat_messages_deepseek [OF h, of "''sp''"
        "[\<lparr>prompt = None, response = Some []\<rparr>,
        \<lparr>prompt = Some ''hi'', response = None\<rparr>,
        \<lparr>prompt = Some [], response = Some ''there''\<rparr>,
        \<lparr>prompt = Some ''q'', response = Some ''a''\<rparr>]"]
      get_chat_messages_deepseek [OF h, of "''sp''"
        "[\<lparr>prompt = None, response = Some ''orphan''\<rparr>,
        \<lparr>prompt = Some ''q'', response = Some ''a''\<rparr>]"]
    by simp
qed




lemma add_encoded_ge: "add_encoded enc v n = Inr n' \<Longrightarrow> n \<le> n'"
  by (auto simp: add_encoded_def encode_len_def split: sum.splits pyval.splits)

lemma count_content_item_ge: "count_content_item enc x n = Inr n' \<Longrightarrow> n \<le> n'"
  by (auto simp: count_content_item_def Let_def dest: add_encoded_ge
           split: pyval.splits if_splits sum.splits option.splits)

lemma count_content_items_ge: "count_content_items enc xs n = Inr n' \<Longrightarrow> n \<le> n'"
proof (induction xs arbitrary: n)
  case Nil
  then show ?case by simp
next
  case (Cons x xs)
  then show ?case
    by (fastforce split: sum.splits dest: count_content_item_ge)
qed

lemma count_field_ge:
  "count_field enc (k, v) n = Inr n' \<Longrightarrow> n - (if k = ''name'' then 1 else 0) \<le> n'"
  by (auto simp: count_field_def dest!: add_encoded_ge count_content_items_ge
           split: pyval.splits if_splits sum.splits option.splits)

lemma count_fields_ge:
  "count_fields enc m n = Inr n' \<Longrightarrow> distinct (map fst m) \<Longrightarrow>
   n - (if ''name'' \<in> fst ` set m then 1 else 0) \<le> n'"
proof (induction m arbitrary: n)
  case Nil
  then show ?case by simp
next
  case (Cons kv m)
  obtain k v where kv: "kv = (k, v)" by (cases kv)
  from Cons.prems obtain n1 where
    s1: "count_field enc (k, v) n = Inr n1" and s2: "count_fields enc m n1 = Inr n'"
    by (auto simp: kv split: sum.splits)
  from Cons.prems have d: "distinct (map fst m)" and nk: "k \<notin> fst ` set m"
    by (auto simp: kv)
  from Cons.IH [OF s2 d] have "n1 - (if ''name'' \<in> fst ` set m then 1 else 0) \<le> n'" .
  moreover from count_field_ge [OF s1] have "n - (if k = ''name'' then 1 else 0) \<le> n1" .
  ultimately show ?case using nk by (auto simp: kv split: if_splits)
qed

lemma count_messages_ge:
  "count_messages enc msgs n = Inr n' \<Longrightarrow> list_all (\<lambda>m. distinct (map fst m)) msgs \<Longrightarrow> n \<le> n'"
proof (induction msgs arbitrary: n)
  case Nil
  then show ?case by simp
next
  case (Cons m msgs)
  from Cons.prems obtain n1 where
    s1: "count_fields enc m (n + 4) = Inr n1" and s2: "count_messages enc msgs n1 = Inr n'"
    by (auto split: sum.splits)
  from Cons.prems have d: "distinct (map fst m)" and ds: "list_all (\<lambda>m. distinct (map fst m)) msgs"
    by auto
  from count_fields_ge [OF s1 d] have "n + 3 \<le> n1" by (auto split: if_splits)
  moreover from Cons.IH [OF s2 ds] have "n1 \<le> n'" .
  ultimately show ?case by simp
qed

lemma estimate_tokens_ge:
  "estimate_tokens tk msgs mdl = Inr n \<Longrightarrow> list_all (\<lambda>m. distinct (map fst m)) msgs \<Longrightarrow> 2 \<le> n"
  by (auto simp: estimate_tokens_def Let_def split: sum.splits dest!: count_messages_ge)

lemma encode_len_ge: "encode_len enc v = Inr n \<Longrightarrow> 0 \<le> n"
  by (auto simp: encode_len_def split: pyval.splits sum.splits)

lemma estimate_response_tokens_ge: "0 \<le> n \<Longrightarrow> 0 \<le> estimate_response_tokens n"
  by (simp add: estimate_response_tokens_def int_times_1_5_def Let_def)

text \<open>
  C3: for all messages (dictionaries, so with distinct keys), models and texts, every
  token-usage dictionary that \<open>estimate_total_tokens\<close> returns, and the one that
  \<open>track_actual_token_usage\<close> returns on its normal and on its error-recovery branch,
  has \<open>total_tokens = prompt_tokens + completion_tokens\<close> and three non-negative fields.
\<close>

theorem token_usage_invariant:
  assumes "\<forall>m \<in> set messages. distinct (map fst m)"
  shows "(\<forall>u. estimate_total_tokens tk messages system_template mdl ctx = Inr u \<longrightarrow>
            total_tokens u = prompt_tokens u + completion_tokens u
            \<and> 0 \<le> prompt_tokens u \<and> 0 \<le> completion_tokens u \<and> 0 \<le> total_tokens u)
       \<and> (let u = track_actual_token_usage tk messages response_text mdl
          in total_tokens u = prompt_tokens u + completion_tokens u
             \<and> 0 \<le> prompt_tokens u \<and> 0 \<le> completion_tokens u \<and> 0 \<le> total_tokens u)"
proof -
  from assms have d: "list_all (\<lambda>m. distinct (map fst m)) messages"
    by (simp add: list_all_iff)
  have est: "total_tokens u = prompt_tokens u + completion_tokens u
            \<and> 0 \<le> prompt_tokens u \<and> 0 \<le> completion_tokens u \<and> 0 \<le> total_tokens u"
    if "estimate_total_tokens tk messages system_template mdl ctx = Inr u" for u
  proof -
    from that obtain a b c where
      a: "estimate_tokens tk messages mdl = Inr a" and
      b: "encode_len (get_encoding tk mdl) (PStr system_template) = Inr b" and
      c: "encode_len (get_encoding tk mdl) (PStr ctx) = Inr c" and
      u: "u = \<lparr>prompt_tokens = a + b + c,
               completion_tokens = estimate_response_tokens (a + b + c),
               total_tokens = a + b + c + estimate_response_tokens (a + b + c)\<rparr>"
      by (auto simp: estimate_total_tokens_def Let_def split: sum.splits)
    from estimate_tokens_ge [OF a d] encode_len_ge [OF b] encode_len_ge [OF c]
    have p: "0 \<le> a + b + c" by simp
    from estimate_response_tokens_ge [OF p] p show ?thesis by (simp add: u)
  qed
  have trk: "total_tokens u = prompt_tokens u + completion_tokens u
            \<and> 0 \<le> prompt_tokens u \<and> 0 \<le> completion_tokens u \<and> 0 \<le> total_tokens u"
    if "u = track_actual_token_usage tk messages response_text mdl" for u
  proof (cases "estimate_tokens tk messages mdl")
    case (Inl e)
    with that show ?thesis by (simp add: track_actual_token_usage_def zero_usage_def)
  next
    case (Inr p)
    note p = this
    show ?thesis
    proof (cases "encode_len (get_encoding tk mdl) (PStr response_text)")
      case (Inl e)
      with that p show ?thesis by (simp add: track_actual_token_usage_def zero_usage_def)
    next
      case (Inr c)
      from estimate_tokens_ge [OF p d] encode_len_ge [OF Inr] that p Inr
      show ?thesis by (simp add: track_actual_token_usage_def)
    qed
  qed
  from est trk show ?thesis by (simp add: Let_def)
qed

theorem token_usage_invariant_witness:
  "list_all (\<lambda>m. distinct (map fst m))
     [[(''role'', PStr ''system''), (''content'', PStr [])],
      [(''role'', PStr ''user''), (''name'', PStr ''bob''),
       (''content'', PList [PDict [(''type'', PStr ''text''), (''text'', PStr ''hi'')],
                            PDict [(''type'', PStr ''image_url''),
                                   (''image_url'', PDict [(''url'', PStr ''u''), (''detail'', PStr ''low'')])]])]]
   \<and> estimate_total_tokens char_tiktoken
     [[(''role'', PStr ''system''), (''content'', PStr [])],
      [(''role'', PStr ''user''), (''name'', PStr ''bob''),
       (''content'', PList [PDict [(''type'', PStr ''text''), (''text'', PStr ''hi'')],
                            PDict [(''type'', PStr ''image_url''),
                                   (''image_url'', PDict [(''url'', PStr ''u''), (''detail'', PStr ''low'')])]])]]
       ''sys'' ''gpt-4'' ''ctx''
     = Inr \<lparr>prompt_tokens = 115, completion_tokens = 172, total_tokens = 287\<rparr>
   \<and> track_actual_token_usage char_tiktoken
     [[(''role'', PStr ''system''), (''content'', PStr [])],
      [(''role'', PStr ''user''), (''name'', PStr ''bob''),
       (''content'', PList [PDict [(''type'', PStr ''text''), (''text'', PStr ''hi'')],
                            PDict [(''type'', PStr ''image_url''),
                                   (''image_url'', PDict [(''url'', PStr ''u''), (''detail'', PStr ''low'')])]])]]
       ''fine'' ''gpt-4''
     = \<lparr>prompt_tokens = 109, completion_tokens = 4, total_tokens = 113\<rparr>
   \<and> track_actual_token_usage char_tiktoken
     [[(''role'', PStr ''system''), (''content'', PStr [])],
      [(''role'', PStr ''user''), (''name'', PStr ''bob''),
       (''content'', PList [PDict [(''type'', PStr ''text''), (''text'', PStr ''hi'')],
                            PDict [(''type'', PStr ''image_url''),
                                   (''image_url'', PDict [(''url'', PStr ''u''), (''detail'', PStr ''low'')])]])]]
       ''a|b'' ''gpt-4''
     = \<lparr>prompt_tokens = 0, completion_tokens = 0, total_tokens = 0\<rparr>"
  using token_usage_invariant [of
     "[[(''role'', PStr ''system''), (''content'', PStr [])],
      [(''role'', PStr ''user''), (''name'', PStr ''bob''),
       (''content'', PList [PDict [(''type'', PStr ''text''), (''text'', PStr ''hi'')],
                            PDict [(''type'', PStr ''image_url''),
                                   (''image_url'', PDict [(''url'', PStr ''u''), (''detail'', PStr ''low'')])]])]]"
     char_tiktoken "''sys''" "''gpt-4''" "''ctx''" "''fine''"]
  by (simp add: estimate_total_tokens_def track_actual_token_usage_def estimate_tokens_def
        get_encoding_def char_tiktoken_def char_encoding_def count_field_def
        count_content_item_def add_encoded_def encode_len_def zero_usage_def
        estimate_response_tokens_def int_times_1_5_def Let_def)

lemma add_encoded_eq:
  "add_encoded enc v n = Inr n' \<Longrightarrow> \<exists>s. v = PStr s \<and> n' = n + tokens_of enc s"
  by (auto simp: add_encoded_def encode_len_def tokens_of_def split: sum.splits pyval.splits)

lemma count_content_item_eq:
  assumes "count_content_item enc x n = Inr n'"
  shows "n' = n + claimed_part_tokens enc x"
proof (cases x)
  case (PDict d)
  show ?thesis
  proof (cases "map_of d ''type'' = Some (PStr ''text'')")
    case True
    with assms PDict
    have "add_encoded enc (case map_of d ''text'' of None \<Rightarrow> PStr [] | Some t \<Rightarrow> t) n = Inr n'"
      by (simp add: count_content_item_def)
    from add_encoded_eq [OF this] True PDict show ?thesis
      by (auto simp: claimed_part_tokens_def split: option.splits)
  next
    case nt: False
    show ?thesis
    proof (cases "map_of d ''type'' = Some (PStr ''image_url'')")
      case True
      with assms PDict nt show ?thesis
        by (auto simp: count_content_item_def claimed_part_tokens_def Let_def
              split: option.splits pyval.splits if_splits)
    next
      case False
      with assms PDict nt show ?thesis
        by (auto simp: count_content_item_def claimed_part_tokens_def split: if_splits)
    qed
  qed
qed (use assms in \<open>simp_all add: count_content_item_def claimed_part_tokens_def\<close>)

lemma count_content_items_eq:
  "count_content_items enc xs n = Inr n' \<Longrightarrow>
   n' = n + sum_list (map (claimed_part_tokens enc) xs)"
proof (induction xs arbitrary: n)
  case Nil
  then show ?case by simp
next
  case (Cons x xs)
  from Cons.prems obtain n1 where
    s1: "count_content_item enc x n = Inr n1" and s2: "count_content_items enc xs n1 = Inr n'"
    by (auto split: sum.splits)
  from count_content_item_eq [OF s1] Cons.IH [OF s2] show ?case by simp
qed

lemma count_field_eq:
  assumes "count_field enc kv n = Inr n'"
  shows "n' = n + field_cost enc kv"
proof -
  obtain k v where kv: "kv = (k, v)" by (cases kv)
  define r where "r =
      (if k = ''content'' then
         (case v of
            PStr s \<Rightarrow> add_encoded enc v n
          | PList items \<Rightarrow> count_content_items enc items n
          | PDict d \<Rightarrow>
              (case map_of d ''text'' of
                 Some t \<Rightarrow> add_encoded enc t n
               | None \<Rightarrow> Inr n)
          | _ \<Rightarrow> Inr n)
       else (case v of PStr s \<Rightarrow> add_encoded enc v n | _ \<Rightarrow> Inr n))"
  from assms obtain n1 where r1: "r = Inr n1" and n': "n' = (if k = ''name'' then n1 + (- 1) else n1)"
    by (auto simp: count_field_def kv r_def split: sum.splits)
  have "n1 = n + (if k = ''content'' then claimed_content_tokens enc v
                  else (case v of PStr s \<Rightarrow> tokens_of enc s | _ \<Rightarrow> 0))"
  proof (cases "k = ''content''")
    case True
    show ?thesis
    proof (cases v)
      case (PStr s)
      with r1 True have "add_encoded enc (PStr s) n = Inr n1" by (simp add: r_def)
      from add_encoded_eq [OF this] True PStr show ?thesis
        by (simp add: claimed_content_tokens_def)
    next
      case (PList items)
      with r1 True have "count_content_items enc items n = Inr n1" by (simp add: r_def)
      from count_content_items_eq [OF this] True PList show ?thesis
        by (simp add: claimed_content_tokens_def)
    next
      case (PDict d)
      show ?thesis
      proof (cases "map_of d ''text''")
        case None
        with r1 True PDict show ?thesis by (simp add: r_def claimed_content_tokens_def)
      next
        case (Some t)
        with r1 True PDict have "add_encoded enc t n = Inr n1" by (simp add: r_def)
        from add_encoded_eq [OF this] True PDict Some show ?thesis
          by (auto simp: claimed_content_tokens_def)
      qed
    qed (use r1 True in \<open>simp_all add: r_def claimed_content_tokens_def\<close>)
  next
    case False
    show ?thesis
    proof (cases v)
      case (PStr s)
      with r1 False have "add_encoded enc (PStr s) n = Inr n1" by (simp add: r_def)
      from add_encoded_eq [OF this] False PStr show ?thesis by simp
    qed (use r1 False in \<open>simp_all add: r_def\<close>)
  qed
  with n' show ?thesis by (simp add: kv field_cost_def)
qed

lemma count_fields_eq:
  "count_fields enc m n = Inr n' \<Longrightarrow> n' = n + sum_list (map (field_cost enc) m)"
proof (induction m arbitrary: n)
  case Nil
  then show ?case by simp
next
  case (Cons kv m)
  from Cons.prems obtain n1 where
    s1: "count_field enc kv n = Inr n1" and s2: "count_fields enc m n1 = Inr n'"
    by (auto split: sum.splits)
  from count_field_eq [OF s1] Cons.IH [OF s2] show ?case by simp
qed

lemma sum_field_cost:
  "distinct (map fst m) \<Longrightarrow>
   sum_list (map (field_cost enc) m) =
     (case map_of m ''content'' of None \<Rightarrow> 0 | Some c \<Rightarrow> claimed_content_tokens enc c)
     + other_field_tokens enc m - (if ''name'' \<in> fst ` set m then 1 else 0)"
proof (induction m)
  case Nil
  then show ?case by (simp add: other_field_tokens_def)
next
  case (Cons kv m)
  obtain k v where kv: "kv = (k, v)" by (cases kv)
  from Cons.prems have d: "distinct (map fst m)" and nk: "k \<notin> fst ` set m"
    by (auto simp: kv)
  have none: "k = ''content'' \<Longrightarrow> map_of m ''content'' = None"
    using nk by (simp add: map_of_eq_None_iff)
  show ?case
    using Cons.IH [OF d] nk none
    by (auto simp: kv field_cost_def other_field_tokens_def)
qed

lemma count_messages_eq:
  "count_messages enc msgs n = Inr n' \<Longrightarrow> list_all (\<lambda>m. distinct (map fst m)) msgs \<Longrightarrow>
   n' = n + sum_list (map (claimed_message_tokens enc) msgs)
          + sum_list (map (other_field_tokens enc) msgs)"
proof (induction msgs arbitrary: n)
  case Nil
  then show ?case by simp
next
  case (Cons m msgs)
  from Cons.prems obtain n1 where
    s1: "count_fields enc m (n + 4) = Inr n1" and s2: "count_messages enc msgs n1 = Inr n'"
    by (auto split: sum.splits)
  from Cons.prems have d: "distinct (map fst m)" and ds: "list_all (\<lambda>m. distinct (map fst m)) msgs"
    by auto
  from count_fields_eq [OF s1] sum_field_cost [OF d, of enc]
  have "n1 = n + claimed_message_tokens enc m + other_field_tokens enc m"
    by (simp add: claimed_message_tokens_def)
  with Cons.IH [OF s2 ds] show ?case by simp
qed

lemma floor_three_halves: "\<lfloor>(3 / 2 :: rat) * of_int p\<rfloor> = (3 * p) div 2"
proof -
  have "(3 / 2 :: rat) * of_int p = of_int (3 * p) / of_int 2" by simp
  then show ?thesis by (simp only: floor_divide_of_int_eq)
qed

text \<open>
  C6, as amended: whenever \<open>estimate_total_tokens\<close> returns, \<open>prompt_tokens\<close> is what
  C6 says (4 per message, minus 1 with a \<open>name\<close> field, the text and image parts, the
  2 priming tokens, the system template and the context) plus the encoded length of
  every other string-valued field of every message, and \<open>completion_tokens\<close> is
  \<open>min(floor(1.5 \<times> prompt_tokens), 2000)\<close>.
\<close>

theorem estimate_total_tokens_formula:
  assumes "\<forall>m \<in> set messages. distinct (map fst m)"
    and "estimate_total_tokens tk messages system_template mdl ctx = Inr u"
  shows "prompt_tokens u =
           claimed_prompt_tokens (get_encoding tk mdl) messages system_template ctx
           + sum_list (map (other_field_tokens (get_encoding tk mdl)) messages)
       \<and> completion_tokens u = min \<lfloor>(3 / 2 :: rat) * of_int (prompt_tokens u)\<rfloor> 2000"
proof -
  let ?enc = "get_encoding tk mdl"
  from assms(1) have d: "list_all (\<lambda>m. distinct (map fst m)) messages"
    by (simp add: list_all_iff)
  from assms(2) obtain a b c where
    a: "estimate_tokens tk messages mdl = Inr a" and
    b: "encode_len ?enc (PStr system_template) = Inr b" and
    c: "encode_len ?enc (PStr ctx) = Inr c" and
    u: "u = \<lparr>prompt_tokens = a + b + c,
             completion_tokens = estimate_response_tokens (a + b + c),
             total_tokens = a + b + c + estimate_response_tokens (a + b + c)\<rparr>"
    by (auto simp: estimate_total_tokens_def Let_def split: sum.splits)
  from a obtain n where n: "count_messages ?enc messages 0 = Inr n" and an: "a = n + 2"
    by (auto simp: estimate_tokens_def Let_def split: sum.splits)
  from count_messages_eq [OF n d]
  have n_eq: "n = sum_list (map (claimed_message_tokens ?enc) messages)
                + sum_list (map (other_field_tokens ?enc) messages)" by simp
  from b have b_eq: "b = tokens_of ?enc system_template"
    by (auto simp: encode_len_def tokens_of_def split: sum.splits)
  from c have c_eq: "c = tokens_of ?enc ctx"
    by (auto simp: encode_len_def tokens_of_def split: sum.splits)
  have p: "prompt_tokens u =
           claimed_prompt_tokens ?enc messages system_template ctx
           + sum_list (map (other_field_tokens ?enc) messages)"
    by (simp add: u an n_eq b_eq c_eq claimed_prompt_tokens_def)
  from estimate_tokens_ge [OF a d] encode_len_ge [OF b] encode_len_ge [OF c]
  have nonneg: "0 \<le> a + b + c" by simp
  have "completion_tokens u = min ((3 * (a + b + c)) div 2) 2000"
    using nonneg by (simp add: u estimate_response_tokens_def int_times_1_5_def Let_def)
  then have q: "completion_tokens u = min \<lfloor>(3 / 2 :: rat) * of_int (prompt_tokens u)\<rfloor> 2000"
    by (simp only: floor_three_halves) (simp add: u)
  from p q show ?thesis by simp
qed

theorem estimate_total_tokens_formula_witness:
  "estimate_total_tokens char_tiktoken
     [[(''role'', PStr ''system''), (''content'', PStr [])],
      [(''role'', PStr ''user''), (''name'', PStr ''bob''),
       (''content'', PList [PDict [(''type'', PStr ''text''), (''text'', PStr ''hi'')],
                            PDict [(''type'', PStr ''image_url''),
                                   (''image_url'', PDict [(''url'', PStr ''u''), (''detail'', PStr ''low'')])]])]]
       ''sys'' ''gpt-4'' ''ctx''
     = Inr \<lparr>prompt_tokens = 115, completion_tokens = 172, total_tokens = 287\<rparr>
   \<and> claimed_prompt_tokens (get_encoding char_tiktoken ''gpt-4'')
     [[(''role'', PStr ''system''), (''content'', PStr [])],
      [(''role'', PStr ''user''), (''name'', PStr ''bob''),
       (''content'', PList [PDict [(''type'', PStr ''text''), (''text'', PStr ''hi'')],
                            PDict [(''type'', PStr ''image_url''),
                                   (''image_url'', PDict [(''url'', PStr ''u''), (''detail'', PStr ''low'')])]])]]
       ''sys'' ''ctx'' = 102
   \<and> sum_list (map (other_field_tokens (get_encoding char_tiktoken ''gpt-4''))
     [[(''role'', PStr ''system''), (''content'', PStr [])],
      [(''role'', PStr ''user''), (''name'', PStr ''bob''),
       (''content'', PList [PDict [(''type'', PStr ''text''), (''text'', PStr ''hi'')],
                            PDict [(''type'', PStr ''image_url''),
                                   (''image_url'', PDict [(''url'', PStr ''u''), (''detail'', PStr ''low'')])]])]]) = 13
   \<and> min \<lfloor>(3 / 2 :: rat) * of_int 115\<rfloor> 2000 = (172 :: int)"
proof -
  let ?msgs = "[[(''role'', PStr ''system''), (''content'', PStr [])],
      [(''role'', PStr ''user''), (''name'', PStr ''bob''),
       (''content'', PList [PDict [(''type'', PStr ''text''), (''text'', PStr ''hi'')],
                            PDict [(''type'', PStr ''image_url''),
                                   (''image_url'', PDict [(''url'', PStr ''u''), (''detail'', PStr ''low'')])]])]]"
  have h1: "\<forall>m \<in> set ?msgs. distinct (map fst m)" by simp
  have h2: "estimate_total_tokens char_tiktoken ?msgs ''sys'' ''gpt-4'' ''ctx''
      = Inr \<lparr>prompt_tokens = 115, completion_tokens = 172, total_tokens = 287\<rparr>"
    by (simp add: estimate_total_tokens_def estimate_tokens_def
        get_encoding_def char_tiktoken_def char_encoding_def count_field_def
        count_content_item_def add_encoded_def encode_len_def
        estimate_response_tokens_def int_times_1_5_def Let_def)
  have h3: "claimed_prompt_tokens (get_encoding char_tiktoken ''gpt-4'') ?msgs ''sys'' ''ctx'' = 102"
    by (simp add: claimed_prompt_tokens_def claimed_message_tokens_def claimed_content_tokens_def
        claimed_part_tokens_def tokens_of_def get_encoding_def char_tiktoken_def char_encoding_def)
  from estimate_total_tokens_formula [OF h1 h2] h2 h3 show ?thesis by simp
qed

text \<open>
  C6 as stated fails on one user message \<open>hey\<close>: the source also counts the 4
  tokens of the role \<open>user\<close> (13 prompt tokens, not 9) and truncates 19.5 to 19.
\<close>

theorem estimate_total_tokens_claimed_counterexample:
  "estimate_total_tokens char_tiktoken [[(''role'', PStr ''user''), (''content'', PStr ''hey'')]]
       [] ''gpt-4'' []
     = Inr \<lparr>prompt_tokens = 13, completion_tokens = 19, total_tokens = 32\<rparr>
   \<and> claimed_prompt_tokens (get_encoding char_tiktoken ''gpt-4'')
       [[(''role'', PStr ''user''), (''content'', PStr ''hey'')]] [] [] = 9
   \<and> claimed_completion_tokens 13 \<noteq> of_int 19"
  by (simp add: estimate_total_tokens_def estimate_tokens_def get_encoding_def char_tiktoken_def
        char_encoding_def count_field_def add_encoded_def encode_len_def
        estimate_response_tokens_def int_times_1_5_def claimed_prompt_tokens_def
        claimed_message_tokens_def claimed_content_tokens_def tokens_of_def
        claimed_completion_tokens_def Let_def)

subsection \<open>Message lists for \<open>anthropic\<close>\<close>


lemma lower_anthropic_not_deepseek: "lower prov = ''anthropic'' \<Longrightarrow> lower prov \<noteq> ''deepseek''"
  by simp











subsection \<open>The quota check of the flows\<close>

lemma grow_nil [simp]: "grow s [] [] = s"
  by (simp add: grow_def)

lemma grow_grow [simp]: "grow (grow s a b) c d = grow s (a @ c) (b @ d)"
  by (simp add: grow_def)

lemma unit_flow_grow: "unit_flow x s = (Normal x, grow s [] [])"
  by (simp add: unit_flow_def)

lemma raise_flow_grow: "raise_flow e s = (Raised e, grow s [] [])"
  by (simp add: raise_flow_def)

lemma return_flow_grow: "return_flow s = (Returned, grow s [] [])"
  by (simp add: return_flow_def)

lemma emit_grow: "emit c s = (Normal (), grow s [c] [])"
  by (simp add: emit_def grow_def)

lemma call_grow: "call ev s = (Normal (), grow s [] [ev])"
  by (simp add: call_def grow_def)

subsection \<open>quiet\<close>

lemma quiet_unit: "quiet (unit_flow x)"
  unfolding quiet_def using unit_flow_grow by fastforce

lemma quiet_raise: "quiet (raise_flow e)"
  unfolding quiet_def using raise_flow_grow by fastforce

lemma quiet_lift: "quiet (lift r)"
  by (cases r) (simp_all add: lift_def quiet_unit quiet_raise)

lemma quiet_call: "harmless ev \<Longrightarrow> quiet (call ev)"
  unfolding quiet_def using call_grow by fastforce

lemma quiet_bind:
  assumes "quiet m" and "\<And>x. quiet (k x)"
  shows "quiet (bind_flow m k)"
  unfolding quiet_def
proof
  fix s
  from assms(1) obtain out evs where
    m: "m s = (out, grow s [] evs)" "list_all harmless evs" "out \<noteq> Returned"
    unfolding quiet_def by blast
  show "\<exists>out evs. bind_flow m k s = (out, grow s [] evs) \<and> list_all harmless evs \<and> out \<noteq> Returned"
  proof (cases out)
    case (Normal x)
    from assms(2) [of x] obtain out2 evs2 where
      k: "k x (grow s [] evs) = (out2, grow (grow s [] evs) [] evs2)"
         "list_all harmless evs2" "out2 \<noteq> Returned"
      unfolding quiet_def by blast
    have "bind_flow m k s = (out2, grow s [] (evs @ evs2))"
      by (simp add: bind_flow_def m(1) Normal k(1))
    with m(2) k(2,3) show ?thesis by fastforce
  next
    case Returned
    with m(3) show ?thesis by simp
  next
    case (Raised e)
    have "bind_flow m k s = (Raised e, grow s [] evs)"
      by (simp add: bind_flow_def m(1) Raised)
    with m(2) show ?thesis by fastforce
  qed
qed

lemma quiet_then: "quiet m \<Longrightarrow> quiet k \<Longrightarrow> quiet (then_flow m k)"
  by (simp add: then_flow_def quiet_bind)

subsection \<open>check_free\<close>

lemma check_free_unit: "check_free (unit_flow x)"
  unfolding check_free_def using unit_flow_grow by fastforce

lemma check_free_raise: "check_free (raise_flow e)"
  unfolding check_free_def using raise_flow_grow by fastforce

lemma check_free_return: "check_free return_flow"
  unfolding check_free_def using return_flow_grow by fastforce

lemma check_free_lift: "check_free (lift r)"
  by (cases r) (simp_all add: lift_def check_free_unit check_free_raise)

lemma check_free_emit: "check_free (emit c)"
  unfolding check_free_def using emit_grow by fastforce

lemma check_free_call: "\<not> is_quota_check ev \<Longrightarrow> check_free (call ev)"
  unfolding check_free_def using call_grow by fastforce

lemma check_free_bind:
  assumes "check_free m" and "\<And>x. check_free (k x)"
  shows "check_free (bind_flow m k)"
  unfolding check_free_def
proof
  fix s
  from assms(1) obtain out cs evs where
    m: "m s = (out, grow s cs evs)" "list_all (\<lambda>e. \<not> is_quota_check e) evs"
    unfolding check_free_def by blast
  show "\<exists>out cs evs. bind_flow m k s = (out, grow s cs evs)
          \<and> list_all (\<lambda>e. \<not> is_quota_check e) evs"
  proof (cases out)
    case (Normal x)
    from assms(2) [of x] obtain out2 cs2 evs2 where
      k: "k x (grow s cs evs) = (out2, grow (grow s cs evs) cs2 evs2)"
         "list_all (\<lambda>e. \<not> is_quota_check e) evs2"
      unfolding check_free_def by blast
    have "bind_flow m k s = (out2, grow s (cs @ cs2) (evs @ evs2))"
      by (simp add: bind_flow_def m(1) Normal k(1))
    with m(2) k(2) show ?thesis by fastforce
  next
    case Returned
    have "bind_flow m k s = (Returned, grow s cs evs)"
      by (simp add: bind_flow_def m(1) Returned)
    with m(2) show ?thesis by fastforce
  next
    case (Raised e)
    have "bind_flow m k s = (Raised e, grow s cs evs)"
      by (simp add: bind_flow_def m(1) Raised)
    with m(2) show ?thesis by fastforce
  qed
qed

lemma check_free_then: "check_free m \<Longrightarrow> check_free k \<Longrightarrow> check_free (then_flow m k)"
  by (simp add: then_flow_def check_free_bind)

lemma check_free_try:
  assumes "check_free m" and "\<And>e. check_free (h e)"
  shows "check_free (try_except m h)"
  unfolding check_free_def
proof
  fix s
  from assms(1) obtain out cs evs where
    m: "m s = (out, grow s cs evs)" "list_all (\<lambda>e. \<not> is_quota_check e) evs"
    unfolding check_free_def by blast
  show "\<exists>out cs evs. try_except m h s = (out, grow s cs evs)
          \<and> list_all (\<lambda>e. \<not> is_quota_check e) evs"
  proof (cases out)
    case (Raised e)
    from assms(2) [of e] obtain out2 cs2 evs2 where
      k: "h e (grow s cs evs) = (out2, grow (grow s cs evs) cs2 evs2)"
         "list_all (\<lambda>e. \<not> is_quota_check e) evs2"
      unfolding check_free_def by blast
    have "try_except m h s = (out2, grow s (cs @ cs2) (evs @ evs2))"
      by (simp add: try_except_def m(1) Raised k(1))
    with m(2) k(2) show ?thesis by fastforce
  next
    case (Normal x)
    have "try_except m h s = (Normal x, grow s cs evs)"
      by (simp add: try_except_def m(1) Normal)
    with m(2) show ?thesis by fastforce
  next
    case Returned
    have "try_except m h s = (Returned, grow s cs evs)"
      by (simp add: try_except_def m(1) Returned)
    with m(2) show ?thesis by fastforce
  qed
qed

lemma check_free_emit_chunks: "check_free (emit_chunks cs full)"
  by (induction cs arbitrary: full) (simp_all add: check_free_unit check_free_then check_free_emit)

lemma quiet_check_free: "quiet m \<Longrightarrow> check_free m"
  unfolding quiet_def check_free_def harmless_def list_all_iff by metis

subsection \<open>gated\<close>

lemma trace_ok_harmless_append:
  "list_all harmless pre \<Longrightarrow> trace_ok (pre @ evs) = trace_ok evs"
  by (induction pre) (auto simp: harmless_def)

lemma harmless_no_refusal: "list_all harmless pre \<Longrightarrow> \<not> list_ex is_refusal pre"
  by (induction pre) (auto simp: harmless_def is_refusal_def is_quota_check_def split: event.splits)

lemma harmless_no_check: "list_all harmless pre \<Longrightarrow> \<not> list_ex is_quota_check pre"
  by (induction pre) (auto simp: harmless_def)

lemma trace_ok_harmless: "list_all harmless evs \<Longrightarrow> trace_ok evs"
  by (induction evs) (auto simp: harmless_def)

lemma trace_ok_check_free_append:
  "trace_ok evs \<Longrightarrow> list_ex is_quota_check evs \<Longrightarrow> \<not> list_ex is_refusal evs \<Longrightarrow>
   list_all (\<lambda>e. \<not> is_quota_check e) post \<Longrightarrow> trace_ok (evs @ post)"
  by (induction evs) (auto split: if_splits)

lemma check_free_no_refusal:
  "list_all (\<lambda>e. \<not> is_quota_check e) post \<Longrightarrow> \<not> list_ex is_refusal post"
  by (induction post) (auto simp: is_refusal_def is_quota_check_def split: event.splits)

lemma gated_quota_gate: "gated (quota_gate w ai_config p)"
  unfolding gated_def
proof
  fix s
  show "\<exists>out cs evs. quota_gate w ai_config p s = (out, grow s cs evs) \<and> trace_ok evs
          \<and> (list_ex is_refusal evs \<longrightarrow> cs = [ErrorPayload 429 insufficient_points] \<and> out = Returned)
          \<and> ((\<exists>x. out = Normal x) \<longrightarrow> list_ex is_quota_check evs)"
  proof (cases "w_check_available w p ai_config")
    case True
    then have "quota_gate w ai_config p s = (Normal (), grow s [] [CheckAvailable p True])"
      by (simp add: quota_gate_def then_flow_def bind_flow_def call_grow unit_flow_grow)
    moreover have "trace_ok [CheckAvailable p True]" "\<not> list_ex is_refusal [CheckAvailable p True]"
      "list_ex is_quota_check [CheckAvailable p True]"
      by (simp_all add: is_quota_check_def is_refusal_def)
    ultimately show ?thesis by blast
  next
    case False
    then have "quota_gate w ai_config p s
        = (Returned, grow s [ErrorPayload 429 insufficient_points] [CheckAvailable p False])"
      by (simp add: quota_gate_def then_flow_def bind_flow_def call_grow emit_grow
            return_flow_grow)
    moreover have "trace_ok [CheckAvailable p False]"
      by (simp add: is_quota_check_def is_refusal_def)
    ultimately show ?thesis by blast
  qed
qed

lemma gated_invalid: "gated (then_flow (emit c) return_flow)"
  unfolding gated_def
proof
  fix s
  have "then_flow (emit c) return_flow s = (Returned, grow s [c] [])"
    by (simp add: then_flow_def bind_flow_def emit_grow return_flow_grow)
  moreover have "trace_ok []" "\<not> list_ex is_refusal []" by simp_all
  ultimately show "\<exists>out cs evs. then_flow (emit c) return_flow s = (out, grow s cs evs) \<and> trace_ok evs
          \<and> (list_ex is_refusal evs \<longrightarrow> cs = [ErrorPayload 429 insufficient_points] \<and> out = Returned)
          \<and> ((\<exists>x. out = Normal x) \<longrightarrow> list_ex is_quota_check evs)"
    by blast
qed

lemma gated_bind_quiet:
  assumes "quiet m" and "\<And>x. gated (k x)"
  shows "gated (bind_flow m k)"
  unfolding gated_def
proof
  fix s
  from assms(1) obtain out evs where
    m: "m s = (out, grow s [] evs)" "list_all harmless evs" "out \<noteq> Returned"
    unfolding quiet_def by blast
  show "\<exists>out cs evs. bind_flow m k s = (out, grow s cs evs) \<and> trace_ok evs
          \<and> (list_ex is_refusal evs \<longrightarrow> cs = [ErrorPayload 429 insufficient_points] \<and> out = Returned)
          \<and> ((\<exists>x. out = Normal x) \<longrightarrow> list_ex is_quota_check evs)"
  proof (cases out)
    case (Normal x)
    from assms(2) [of x] obtain out2 cs2 evs2 where
      k: "k x (grow s [] evs) = (out2, grow (grow s [] evs) cs2 evs2)" "trace_ok evs2"
         "list_ex is_refusal evs2 \<longrightarrow> cs2 = [ErrorPayload 429 insufficient_points] \<and> out2 = Returned"
         "(\<exists>x. out2 = Normal x) \<longrightarrow> list_ex is_quota_check evs2"
      unfolding gated_def by blast
    have 1: "bind_flow m k s = (out2, grow s cs2 (evs @ evs2))"
      by (simp add: bind_flow_def m(1) Normal k(1))
    have 2: "trace_ok (evs @ evs2)"
      using m(2) k(2) by (simp add: trace_ok_harmless_append)
    have 3: "list_ex is_refusal (evs @ evs2) \<longrightarrow>
               cs2 = [ErrorPayload 429 insufficient_points] \<and> out2 = Returned"
      using harmless_no_refusal [OF m(2)] k(3) by (auto simp: list_ex_iff)
    have 4: "(\<exists>x. out2 = Normal x) \<longrightarrow> list_ex is_quota_check (evs @ evs2)"
      using k(4) by (auto simp: list_ex_iff)
    from 1 2 3 4 show ?thesis by blast
  next
    case Returned
    with m(3) show ?thesis by simp
  next
    case (Raised e)
    have 1: "bind_flow m k s = (Raised e, grow s [] evs)"
      by (simp add: bind_flow_def m(1) Raised)
    have 2: "trace_ok evs" using m(2) by (rule trace_ok_harmless)
    have 3: "\<not> list_ex is_refusal evs" using m(2) by (rule harmless_no_refusal)
    from 1 2 3 show ?thesis by blast
  qed
qed

lemma gated_bind_check_free:
  assumes "gated m" and "\<And>x. check_free (k x)"
  shows "gated (bind_flow m k)"
  unfolding gated_def
proof
  fix s
  from assms(1) obtain out cs evs where
    m: "m s = (out, grow s cs evs)" "trace_ok evs"
       "list_ex is_refusal evs \<longrightarrow> cs = [ErrorPayload 429 insufficient_points] \<and> out = Returned"
       "(\<exists>x. out = Normal x) \<longrightarrow> list_ex is_quota_check evs"
    unfolding gated_def by blast
  show "\<exists>out cs evs. bind_flow m k s = (out, grow s cs evs) \<and> trace_ok evs
          \<and> (list_ex is_refusal evs \<longrightarrow> cs = [ErrorPayload 429 insufficient_points] \<and> out = Returned)
          \<and> ((\<exists>x. out = Normal x) \<longrightarrow> list_ex is_quota_check evs)"
  proof (cases out)
    case (Normal x)
    from assms(2) [of x] obtain out2 cs2 evs2 where
      k: "k x (grow s cs evs) = (out2, grow (grow s cs evs) cs2 evs2)"
         "list_all (\<lambda>e. \<not> is_quota_check e) evs2"
      unfolding check_free_def by blast
    from m(3,4) Normal have chk: "list_ex is_quota_check evs" and nr: "\<not> list_ex is_refusal evs"
      by auto
    have 1: "bind_flow m k s = (out2, grow s (cs @ cs2) (evs @ evs2))"
      by (simp add: bind_flow_def m(1) Normal k(1))
    have 2: "trace_ok (evs @ evs2)"
      using m(2) chk nr k(2) by (rule trace_ok_check_free_append)
    have 3: "\<not> list_ex is_refusal (evs @ evs2)"
      using nr check_free_no_refusal [OF k(2)] by (auto simp: list_ex_iff)
    have 4: "list_ex is_quota_check (evs @ evs2)"
      using chk by (auto simp: list_ex_iff)
    from 1 2 3 4 show ?thesis by blast
  next
    case Returned
    have "bind_flow m k s = (Returned, grow s cs evs)"
      by (simp add: bind_flow_def m(1) Returned)
    with m(2,3) Returned show ?thesis by blast
  next
    case (Raised e)
    have "bind_flow m k s = (Raised e, grow s cs evs)"
      by (simp add: bind_flow_def m(1) Raised)
    with m(2,3) Raised show ?thesis by blast
  qed
qed

lemma gated_then_quiet: "quiet m \<Longrightarrow> gated k \<Longrightarrow> gated (then_flow m k)"
  by (simp add: then_flow_def gated_bind_quiet)

lemma gated_then_check_free: "gated m \<Longrightarrow> check_free k \<Longrightarrow> gated (then_flow m k)"
  by (simp add: then_flow_def gated_bind_check_free)

lemma trace_ok_checked: "trace_ok evs \<Longrightarrow> checked_before_provider evs"
  by (induction evs) (auto simp: harmless_def split: if_splits)

lemma trace_ok_refused:
  assumes "trace_ok evs" and "list_ex is_refusal evs"
  shows "\<not> list_ex is_provider_call evs \<and> \<not> list_ex is_persist evs"
  using assms
proof (induction evs)
  case Nil
  then show ?case by simp
next
  case (Cons ev evs)
  show ?case
  proof (cases "is_quota_check ev")
    case True
    note chk = this
    show ?thesis
    proof (cases "is_refusal ev")
      case True
      with Cons.prems(1) chk have "evs = []" by simp
      with chk show ?thesis
        by (auto simp: is_quota_check_def is_provider_call_def is_persist_def split: event.splits)
    next
      case False
      with Cons.prems(1) chk have "list_all (\<lambda>e. \<not> is_quota_check e) evs" by simp
      from check_free_no_refusal [OF this] False Cons.prems(2) show ?thesis by simp
    qed
  next
    case False
    with Cons.prems(1) have h: "harmless ev" and t: "trace_ok evs" by simp_all
    from False have "\<not> is_refusal ev"
      by (auto simp: is_refusal_def is_quota_check_def split: event.splits)
    with Cons.prems(2) have "list_ex is_refusal evs" by simp
    from Cons.IH [OF t this] h show ?thesis by (simp add: harmless_def)
  qed
qed

lemma gated_quota_respected:
  assumes "gated m"
  shows "quota_respected (snd (try_except m (\<lambda>e. emit c) initial_state))"
proof -
  from assms obtain out cs evs where
    m: "m initial_state = (out, grow initial_state cs evs)" "trace_ok evs"
       "list_ex is_refusal evs \<longrightarrow> cs = [ErrorPayload 429 insufficient_points] \<and> out = Returned"
    unfolding gated_def by blast
  let ?final = "snd (try_except m (\<lambda>e. emit c) initial_state)"
  have final: "?final = (case out of Raised e \<Rightarrow> grow initial_state (cs @ [c]) evs
                          | _ \<Rightarrow> grow initial_state cs evs)"
    by (cases out) (simp_all add: try_except_def m(1) emit_grow)
  have calls: "calls ?final = evs"
    unfolding final by (cases out) (simp_all add: grow_def initial_state_def)
  have em: "emitted ?final = cs" if "out = Returned"
    unfolding final using that by (simp add: grow_def initial_state_def)
  show ?thesis
    unfolding quota_respected_def calls
    using trace_ok_checked [OF m(2)] trace_ok_refused [OF m(2)] m(3) em by auto
qed

lemmas event_kind_defs = harmless_def is_provider_call_def is_persist_def is_quota_check_def

lemma quiet_start_flow: "quiet (start_flow w rq)"
  by (auto simp: start_flow_def event_kind_defs
        intro!: quiet_then quiet_call quiet_raise quiet_unit split: option.splits)

lemma quiet_prepare_files: "quiet (prepare_files w rq ai_config)"
  by (auto simp: prepare_files_def Let_def event_kind_defs
        intro!: quiet_bind quiet_then quiet_call quiet_lift quiet_unit
        split: prod.splits option.splits)

lemma quiet_enhanced_query: "quiet (enhanced_query w rq instruction)"
  by (auto simp: enhanced_query_def event_kind_defs
        intro!: quiet_bind quiet_then quiet_call quiet_lift quiet_unit
        split: prod.splits option.splits)

lemma gated_estimate_and_check: "gated (estimate_and_check w ai_config messages system_template ctx)"
  by (simp add: estimate_and_check_def gated_bind_quiet quiet_lift gated_quota_gate)

lemma check_free_persist: "check_free (persist rq title full_response usage points)"
  by (auto simp: persist_def is_quota_check_def intro!: check_free_then check_free_call)

lemma check_free_emit_response: "check_free (emit_response full_response points)"
  by (auto simp: emit_response_def intro!: check_free_then check_free_emit)

lemmas check_free_intros =
  check_free_bind check_free_then check_free_try check_free_lift check_free_unit check_free_emit
  check_free_raise check_free_return check_free_emit_chunks check_free_persist
  check_free_emit_response check_free_call

lemma gated_text_with_files: "gated (text_with_files w rq ai_config llm)"
  unfolding text_with_files_def
  apply (rule gated_bind_quiet [OF quiet_prepare_files])
  apply (rule gated_then_check_free [OF gated_estimate_and_check])
  apply (auto simp: is_quota_check_def intro!: check_free_intros split: prod.splits)
  done

lemma gated_text_without_files: "gated (text_without_files w rq ai_config llm)"
  unfolding text_without_files_def Let_def
  apply (simp split: prod.split)
  apply (intro allI impI)
  apply (rule gated_then_check_free [OF gated_estimate_and_check])
  apply (auto simp: is_quota_check_def intro!: check_free_intros split: prod.splits)
  done

lemma gated_stream_with_files: "gated (stream_with_files w rq ai_config llm)"
  unfolding stream_with_files_def
  apply (rule gated_bind_quiet [OF quiet_prepare_files])
  apply (rule gated_then_check_free [OF gated_estimate_and_check])
  apply (auto simp: is_quota_check_def Let_def intro!: check_free_intros
           split: prod.splits option.splits)
  done

lemma generate_text_response_quota: "quota_respected (generate_text_response w rq)"
  unfolding generate_text_response_def
  apply (rule gated_quota_respected)
  apply (rule gated_then_quiet [OF quiet_start_flow])
  apply (auto simp: Let_def intro!: gated_invalid gated_bind_check_free gated_text_with_files
           gated_text_without_files check_free_intros split: option.splits prod.splits)
  done

lemma generate_stream_response_with_files_quota:
  "req_files rq \<noteq> [] \<Longrightarrow> quota_respected (generate_stream_response w rq)"
  unfolding generate_stream_response_def
  apply (rule gated_quota_respected)
  apply (rule gated_then_quiet [OF quiet_start_flow])
  apply (auto simp: Let_def intro!: gated_invalid gated_bind_check_free gated_stream_with_files
           check_free_intros split: option.splits prod.splits)
  done

lemma generate_image_response_quota: "quota_respected (generate_image_response w rq)"
  unfolding generate_image_response_def
  apply (rule gated_quota_respected)
  apply (rule gated_then_quiet [OF quiet_start_flow])
  apply (auto simp: Let_def is_quota_check_def
           intro!: gated_invalid gated_bind_quiet quiet_enhanced_query gated_then_check_free
                   gated_quota_gate check_free_intros
           split: option.splits prod.splits)
  done

lemma generate_audio_response_quota: "quota_respected (generate_audio_response w rq)"
  unfolding generate_audio_response_def
  apply (rule gated_quota_respected)
  apply (rule gated_then_quiet [OF quiet_start_flow])
  apply (auto simp: Let_def is_quota_check_def
           intro!: gated_invalid gated_bind_quiet quiet_enhanced_query gated_then_check_free
                   gated_quota_gate check_free_intros
           split: option.splits prod.splits)
  done

text \<open>
  C2: the streamed chat without files neither estimates nor checks. With a point service
  that refuses every request it still calls the model and persists the chat log, the
  usage log and the points, where the sync chat on the same request stops with the 429
  payload. The lemmas above show that the other flows (and the streamed chat with files)
  respect the quota in every world.
\<close>

theorem stream_without_files_skips_quota_check:
  "generate_stream_response (demo_world False) (demo_request ''gpt-4'' []) =
     \<lparr>emitted = [Chunk ''ok'', PointsMarker 310, OutputTimeMarker],
      calls =
        [Initialize ''a@b.c'',
         LLMChain
           \<lparr>client = ChatOpenAI, temperature = None, streaming = True, model_id = ''gpt-4'',
            max_tokens = 2000, api_key = Some ''k-openai'', base_url = None,
            stream_usage = True\<rparr>
           [SystemTemplate [], HumanTemplate ''Hello''] [],
         SaveChatLog
           \<lparr>log_email = ''a@b.c'', log_sessionId = ''s1'', log_reGenerate = False,
            log_title = ''ok'', log_prompt = ''Hello'', log_response = ''ok'',
            log_inputToken = 25, log_outputToken = 2, log_chatType = 0, log_fileUrls = [],
            log_model = ''gpt-4'', log_points = 310\<rparr>,
         SaveUsageLog
           \<lparr>usage_modelId = ''gpt-4'', usage_input = 25, usage_output = 2, usage_total = 27,
            usage_points = 310\<rparr>,
         SaveUserPoints 310]\<rparr>
   \<and> \<not> quota_respected (generate_stream_response (demo_world False) (demo_request ''gpt-4'' []))
   \<and> generate_text_response (demo_world False) (demo_request ''gpt-4'' []) =
     \<lparr>emitted = [ErrorPayload 429 ''Insufficient points available''],
      calls = [Initialize ''a@b.c'', CheckAvailable 3520 False]\<rparr>"
  by code_simp

end
